theory Spec2Isabelle
  imports Main
begin

section \<open>Job-Portal single-page client: the session store, the guard and the forms\<close>

text \<open>
  The development embeds \<^verbatim>\<open>frontend/src/App.js\<close>. Component state (React
  \<^verbatim>\<open>useState\<close> cells), the browser's \<^verbatim>\<open>localStorage\<close> and the axios default
  headers are fields of explicit state records. An \<^verbatim>\<open>async\<close> function is a
  function of the response its \<^verbatim>\<open>await\<close> settles with: \<open>Inr\<close> carries the decoded
  body of a fulfilled call, \<open>Inl\<close> the error of a rejected one. Every function returns
  the state it leaves together with the list of observable events in the order they
  happen (requests put on the wire, console output). Such a function runs one
  operation from the state it starts in until its awaits have settled. The start-up
  \<^verbatim>\<open>/me\<close> request, which the provider's effect does not await and during which the
  login form can already be used, is given in two pieces as well: the state the effect
  leaves at the await, and the continuation that runs on whatever state is there when
  \<^verbatim>\<open>/me\<close> settles.

  Strings are lists of 8-bit characters, so the model covers the Latin-1 range of
  JavaScript's strings. A JavaScript string is falsy exactly when it is empty.
\<close>

subsection \<open>Data of the remote API\<close>

record User =
  full_name :: string
  role :: string

record Job =
  job_ident :: string
  job_title :: string
  job_company :: string
  job_location :: string
  job_description :: string

record Resume =
  resume_ident :: string
  filename :: string
  uploaded_at :: string

record Application =
  application_ident :: string
  job_id :: string
  status :: string
  applied_at :: string

text \<open>The body of a successful \<^verbatim>\<open>/login\<close> or \<^verbatim>\<open>/register\<close> response.\<close>

record token_response =
  access_token :: string
  resp_user :: User

text \<open>
  A decoded JSON value. The server decides what a response body holds, so a field read
  from one is any of these. Numbers are kept to the integers; one that is no integer
  is truthy like every non-zero integer.
\<close>

datatype jsval =
    JNull
  | JBool bool
  | JNumber int
  | JString string
  | JArray "jsval list"
  | JObject "(string \<times> jsval) list"

text \<open>JavaScript's \<^verbatim>\<open>ToBoolean\<close>, which \<^verbatim>\<open>||\<close> and \<^verbatim>\<open>&&\<close> test.\<close>

fun truthy :: "jsval \<Rightarrow> bool" where
  "truthy JNull = False"
| "truthy (JBool b) = b"
| "truthy (JNumber n) = (n \<noteq> 0)"
| "truthy (JString v) = (v \<noteq> [])"
| "truthy (JArray _) = True"
| "truthy (JObject _) = True"

text \<open>
  A rejected call: \<^verbatim>\<open>error.response?.data?.detail\<close> may be cut short at every
  step, so each level is optional (\<open>None\<close> is \<^verbatim>\<open>undefined\<close>), and the
  \<^verbatim>\<open>detail\<close> itself is whatever value the body holds.
\<close>

record error_data =
  detail :: "jsval option"

record error_response =
  data :: "error_data option"

record axios_error =
  response :: "error_response option"

subsection \<open>Requests and events\<close>

record register_form =
  email :: string
  password :: string
  reg_full_name :: string
  reg_role :: string
  company_name :: string
  phone :: string

text \<open>
  The JavaScript numbers that \<^verbatim>\<open>parseInt\<close> can answer: \<^verbatim>\<open>NaN\<close>, the infinities,
  negative zero, and \<open>Num n\<close> for the finite number whose value is the integer \<open>n\<close>.
\<close>

datatype jsnum = NaN | Num int | NegZero | Infinity | NegInfinity

record formattedData =
  f_title :: string
  f_company :: string
  f_location :: string
  f_salary_min :: "jsnum option"
  f_salary_max :: "jsnum option"
  f_description :: string
  f_requirements :: "string list"
  f_job_type :: string

datatype File = File string

datatype body =
    NoBody
  | Credentials string string
  | RegisterBody register_form
  | FormData File
  | ApplicationBody string string string
  | JobBody formattedData

record request =
  http_method :: string
  url :: string
  headers :: "string \<rightharpoonup> string"
  payload :: body

datatype event = Sent request | ConsoleError string axios_error

subsection \<open>Session store: \<^verbatim>\<open>AuthProvider\<close>, \<^verbatim>\<open>localStorage\<close> and the axios defaults\<close>

record session =
  localStorage :: "string \<rightharpoonup> string"
  headers_common :: "string \<rightharpoonup> string"
  user :: "User option"
  loading :: bool

text \<open>
  A page load evaluates the module afresh: line 10 sets the default content type,
  \<^verbatim>\<open>useState(null)\<close> and \<^verbatim>\<open>useState(true)\<close> initialise the provider, and only
  \<^verbatim>\<open>localStorage\<close> is carried over.
\<close>

definition page_load :: "(string \<rightharpoonup> string) \<Rightarrow> session" where
  "page_load storage =
     \<lparr> localStorage = storage,
       headers_common = [''Content-Type'' \<mapsto> ''application/json''],
       user = None,
       loading = True \<rparr>"

definition reload :: "session \<Rightarrow> session" where
  "reload s = page_load (localStorage s)"

text \<open>
  \<^verbatim>\<open>axios.get(url)\<close> and \<^verbatim>\<open>axios.post(url, data, config)\<close>: the request as the
  call configures it, with the default headers overridden by the headers of the call's
  own config. What the transport adapter does to the content type afterwards is not
  part of the model.
\<close>

definition axios_get :: "(string \<rightharpoonup> string) \<Rightarrow> string \<Rightarrow> request" where
  "axios_get common u = \<lparr> http_method = ''GET'', url = u, headers = common, payload = NoBody \<rparr>"

definition axios_post :: "(string \<rightharpoonup> string) \<Rightarrow> string \<Rightarrow> body \<Rightarrow> (string \<rightharpoonup> string) \<Rightarrow> request" where
  "axios_post common u b config_headers =
     \<lparr> http_method = ''POST'', url = u, headers = common ++ config_headers, payload = b \<rparr>"

definition fetchUser :: "string \<Rightarrow> axios_error + User \<Rightarrow> session \<Rightarrow> session \<times> event list" where
  "fetchUser API resp s =
     (let sent = Sent (axios_get (headers_common s) (API @ ''/me'')) in
      case resp of
        Inr d \<Rightarrow> (s\<lparr> user := Some d, loading := False \<rparr>, [sent])
      | Inl err \<Rightarrow>
          (s\<lparr> localStorage := (localStorage s)(''token'' := None),
              headers_common := (headers_common s)(''Authorization'' := None),
              loading := False \<rparr>, [sent]))"

text \<open>
  What \<^verbatim>\<open>fetchUser\<close> does once \<^verbatim>\<open>/me\<close> has settled (lines 33 to 38), on the state
  that is there at that moment.
\<close>

definition fetchUser_settled :: "axios_error + User \<Rightarrow> session \<Rightarrow> session" where
  "fetchUser_settled resp s =
     (case resp of
        Inr d \<Rightarrow> s\<lparr> user := Some d, loading := False \<rparr>
      | Inl err \<Rightarrow>
          s\<lparr> localStorage := (localStorage s)(''token'' := None),
             headers_common := (headers_common s)(''Authorization'' := None),
             loading := False \<rparr>)"

text \<open>The state between the effect's synchronous part and the settling of \<^verbatim>\<open>/me\<close>.\<close>

definition attach_token :: "string \<Rightarrow> session \<Rightarrow> session" where
  "attach_token token s =
     s\<lparr> headers_common := (headers_common s)(''Authorization'' \<mapsto> ''Bearer '' @ token) \<rparr>"

definition AuthProvider_effect :: "string \<Rightarrow> axios_error + User \<Rightarrow> session \<Rightarrow> session \<times> event list" where
  "AuthProvider_effect API resp s =
     (case localStorage s ''token'' of
        None \<Rightarrow> (s\<lparr> loading := False \<rparr>, [])
      | Some token \<Rightarrow>
          if token \<noteq> [] then fetchUser API resp (attach_token token s)
          else (s\<lparr> loading := False \<rparr>, []))"

text \<open>\<^verbatim>\<open>{ success: true }\<close>, or \<^verbatim>\<open>{ success: false, error: ... }\<close> with the value of
  \<^verbatim>\<open>error.response?.data?.detail || fallback\<close>, which is the detail itself whenever that
  is truthy.\<close>

datatype auth_result = Success | Failure jsval

definition error_message :: "axios_error \<Rightarrow> string \<Rightarrow> jsval" where
  "error_message err fallback =
     (case response err of
        None \<Rightarrow> JString fallback
      | Some r \<Rightarrow>
          (case data r of
             None \<Rightarrow> JString fallback
           | Some d \<Rightarrow>
               (case detail d of
                  None \<Rightarrow> JString fallback
                | Some v \<Rightarrow> if truthy v then v else JString fallback)))"

definition login ::
  "string \<Rightarrow> string \<Rightarrow> string \<Rightarrow> axios_error + token_response \<Rightarrow> session
     \<Rightarrow> session \<times> event list \<times> auth_result" where
  "login API em pw resp s =
     (let sent = Sent (axios_post (headers_common s) (API @ ''/login'') (Credentials em pw) Map.empty) in
      case resp of
        Inr r \<Rightarrow>
          (s\<lparr> localStorage := (localStorage s)(''token'' \<mapsto> access_token r),
              headers_common := (headers_common s)(''Authorization'' \<mapsto> ''Bearer '' @ access_token r),
              user := Some (resp_user r) \<rparr>,
           [sent], Success)
      | Inl err \<Rightarrow> (s, [sent], Failure (error_message err ''Login failed'')))"

definition register ::
  "string \<Rightarrow> register_form \<Rightarrow> axios_error + token_response \<Rightarrow> session
     \<Rightarrow> session \<times> event list \<times> auth_result" where
  "register API userData resp s =
     (let sent = Sent (axios_post (headers_common s) (API @ ''/register'') (RegisterBody userData) Map.empty) in
      case resp of
        Inr r \<Rightarrow>
          (s\<lparr> localStorage := (localStorage s)(''token'' \<mapsto> access_token r),
              headers_common := (headers_common s)(''Authorization'' \<mapsto> ''Bearer '' @ access_token r),
              user := Some (resp_user r) \<rparr>,
           [sent], Success)
      | Inl err \<Rightarrow> (s, [sent], Failure (error_message err ''Registration failed'')))"

definition logout :: "session \<Rightarrow> session" where
  "logout s =
     s\<lparr> localStorage := (localStorage s)(''token'' := None),
        headers_common := (headers_common s)(''Authorization'' := None),
        user := None \<rparr>"

subsection \<open>Guard and role dispatch\<close>

datatype dashboard = CandidateDashboard | EmployerDashboard | AdminDashboard

datatype screen = LoadingScreen | LoginScreen | Page dashboard

definition Dashboard :: "User \<Rightarrow> dashboard" where
  "Dashboard u =
     (if role u = ''candidate'' then CandidateDashboard
      else if role u = ''employer'' then EmployerDashboard
      else AdminDashboard)"

definition ProtectedRoute :: "session \<Rightarrow> screen" where
  "ProtectedRoute s =
     (if loading s then LoadingScreen
      else case user s of None \<Rightarrow> LoginScreen | Some u \<Rightarrow> Page (Dashboard u))"

subsection \<open>\<^verbatim>\<open>Login\<close> and \<^verbatim>\<open>Register\<close> components\<close>




record Register_state =
  formData :: register_form
  register_error :: jsval

definition Register_handleSubmit ::
  "string \<Rightarrow> axios_error + token_response \<Rightarrow> Register_state \<Rightarrow> session
     \<Rightarrow> Register_state \<times> session \<times> event list" where
  "Register_handleSubmit API resp st s =
     (case register API (formData st) resp s of
        (s', evs, Success) \<Rightarrow> (st, s', evs)
      | (s', evs, Failure e) \<Rightarrow> (st\<lparr> register_error := e \<rparr>, s', evs))"


text \<open>
  The form's controls as the JSX renders them. The browser fires \<^verbatim>\<open>onSubmit\<close> only
  when every rendered control passes its native constraint: a \<^verbatim>\<open>required\<close> control has
  a non-empty value, and a non-empty \<^verbatim>\<open>type="email"\<close> value has the syntax of an
  address. That syntax is the browser's; it is the parameter \<open>valid_email\<close>.
\<close>

record input_control =
  input_type :: string
  required :: bool
  input_value :: string

definition Register_inputs :: "register_form \<Rightarrow> input_control list" where
  "Register_inputs f =
     [ \<lparr> input_type = ''text'', required = True, input_value = reg_full_name f \<rparr>,
       \<lparr> input_type = ''email'', required = True, input_value = email f \<rparr>,
       \<lparr> input_type = ''password'', required = True, input_value = password f \<rparr>,
       \<lparr> input_type = ''tel'', required = False, input_value = phone f \<rparr> ]
     @ (if reg_role f = ''employer''
        then [ \<lparr> input_type = ''text'', required = True, input_value = company_name f \<rparr> ]
        else [])"

definition control_valid :: "(string \<Rightarrow> bool) \<Rightarrow> input_control \<Rightarrow> bool" where
  "control_valid valid_email c =
     ((required c \<longrightarrow> input_value c \<noteq> [])
      \<and> (input_type c = ''email'' \<and> input_value c \<noteq> [] \<longrightarrow> valid_email (input_value c)))"

definition submission_allowed :: "(string \<Rightarrow> bool) \<Rightarrow> register_form \<Rightarrow> bool" where
  "submission_allowed valid_email f = list_all (control_valid valid_email) (Register_inputs f)"

definition Register_submit ::
  "(string \<Rightarrow> bool) \<Rightarrow> string \<Rightarrow> axios_error + token_response \<Rightarrow> Register_state \<Rightarrow> session
     \<Rightarrow> (Register_state \<times> session \<times> event list) option" where
  "Register_submit valid_email API resp st s =
     (if submission_allowed valid_email (formData st)
      then Some (Register_handleSubmit API resp st s)
      else None)"

subsection \<open>\<^verbatim>\<open>CandidateDashboard\<close>\<close>

record Candidate_state =
  jobs :: "Job list"
  resumes :: "Resume list"
  applications :: "Application list"
  selectedJob :: "Job option"
  showUploadModal :: bool
  showApplicationModal :: bool

definition fetchJobs ::
  "string \<Rightarrow> (string \<rightharpoonup> string) \<Rightarrow> axios_error + Job list \<Rightarrow> Candidate_state
     \<Rightarrow> Candidate_state \<times> event list" where
  "fetchJobs API common resp st =
     (let sent = Sent (axios_get common (API @ ''/jobs'')) in
      case resp of
        Inr d \<Rightarrow> (st\<lparr> jobs := d \<rparr>, [sent])
      | Inl err \<Rightarrow> (st, [sent, ConsoleError ''Error fetching jobs:'' err]))"

definition fetchResumes ::
  "string \<Rightarrow> (string \<rightharpoonup> string) \<Rightarrow> axios_error + Resume list \<Rightarrow> Candidate_state
     \<Rightarrow> Candidate_state \<times> event list" where
  "fetchResumes API common resp st =
     (let sent = Sent (axios_get common (API @ ''/resumes'')) in
      case resp of
        Inr d \<Rightarrow> (st\<lparr> resumes := d \<rparr>, [sent])
      | Inl err \<Rightarrow> (st, [sent, ConsoleError ''Error fetching resumes:'' err]))"

definition fetchApplications ::
  "string \<Rightarrow> (string \<rightharpoonup> string) \<Rightarrow> axios_error + Application list \<Rightarrow> Candidate_state
     \<Rightarrow> Candidate_state \<times> event list" where
  "fetchApplications API common resp st =
     (let sent = Sent (axios_get common (API @ ''/applications'')) in
      case resp of
        Inr d \<Rightarrow> (st\<lparr> applications := d \<rparr>, [sent])
      | Inl err \<Rightarrow> (st, [sent, ConsoleError ''Error fetching applications:'' err]))"

text \<open>
  \<^verbatim>\<open>handleUploadResume\<close> awaits the upload; only in the fulfilled branch does it call
  \<^verbatim>\<open>fetchResumes()\<close> (which puts its GET on the wire at once and settles later) and
  then closes the modal. \<open>post_resp\<close> settles the upload, \<open>get_resp\<close> the re-fetch.
\<close>

definition handleUploadResume ::
  "string \<Rightarrow> (string \<rightharpoonup> string) \<Rightarrow> File \<Rightarrow> axios_error + unit \<Rightarrow> axios_error + Resume list
     \<Rightarrow> Candidate_state \<Rightarrow> Candidate_state \<times> event list" where
  "handleUploadResume API common file post_resp get_resp st =
     (let sent = Sent (axios_post common (API @ ''/resumes/upload'') (FormData file)
                         [''Content-Type'' \<mapsto> ''multipart/form-data'']) in
      case post_resp of
        Inr _ \<Rightarrow>
          (case fetchResumes API common get_resp st of
             (st', evs) \<Rightarrow> (st'\<lparr> showUploadModal := False \<rparr>, sent # evs))
      | Inl err \<Rightarrow> (st, [sent, ConsoleError ''Error uploading resume:'' err]))"

definition handleApplyToJob ::
  "string \<Rightarrow> (string \<rightharpoonup> string) \<Rightarrow> string \<Rightarrow> string \<Rightarrow> string
     \<Rightarrow> axios_error + unit \<Rightarrow> axios_error + Application list
     \<Rightarrow> Candidate_state \<Rightarrow> Candidate_state \<times> event list" where
  "handleApplyToJob API common jobId resumeId coverLetter post_resp get_resp st =
     (let sent = Sent (axios_post common (API @ ''/applications'')
                         (ApplicationBody jobId resumeId coverLetter) Map.empty) in
      case post_resp of
        Inr _ \<Rightarrow>
          (case fetchApplications API common get_resp st of
             (st', evs) \<Rightarrow> (st'\<lparr> showApplicationModal := False \<rparr>, sent # evs))
      | Inl err \<Rightarrow> (st, [sent, ConsoleError ''Error applying to job:'' err]))"

subsection \<open>\<^verbatim>\<open>EmployerDashboard\<close>\<close>

record Employer_state =
  employer_jobs :: "Job list"
  employer_applications :: "Application list"
  showJobModal :: bool

definition Employer_fetchJobs ::
  "string \<Rightarrow> (string \<rightharpoonup> string) \<Rightarrow> axios_error + Job list \<Rightarrow> Employer_state
     \<Rightarrow> Employer_state \<times> event list" where
  "Employer_fetchJobs API common resp st =
     (let sent = Sent (axios_get common (API @ ''/jobs'')) in
      case resp of
        Inr d \<Rightarrow> (st\<lparr> employer_jobs := d \<rparr>, [sent])
      | Inl err \<Rightarrow> (st, [sent, ConsoleError ''Error fetching jobs:'' err]))"

definition Employer_fetchApplications ::
  "string \<Rightarrow> (string \<rightharpoonup> string) \<Rightarrow> axios_error + Application list \<Rightarrow> Employer_state
     \<Rightarrow> Employer_state \<times> event list" where
  "Employer_fetchApplications API common resp st =
     (let sent = Sent (axios_get common (API @ ''/applications'')) in
      case resp of
        Inr d \<Rightarrow> (st\<lparr> employer_applications := d \<rparr>, [sent])
      | Inl err \<Rightarrow> (st, [sent, ConsoleError ''Error fetching applications:'' err]))"

definition handleCreateJob ::
  "string \<Rightarrow> (string \<rightharpoonup> string) \<Rightarrow> formattedData \<Rightarrow> axios_error + unit \<Rightarrow> axios_error + Job list
     \<Rightarrow> Employer_state \<Rightarrow> Employer_state \<times> event list" where
  "handleCreateJob API common jd post_resp get_resp st =
     (let sent = Sent (axios_post common (API @ ''/jobs'') (JobBody jd) Map.empty) in
      case post_resp of
        Inr _ \<Rightarrow>
          (case Employer_fetchJobs API common get_resp st of
             (st', evs) \<Rightarrow> (st'\<lparr> showJobModal := False \<rparr>, sent # evs))
      | Inl err \<Rightarrow> (st, [sent, ConsoleError ''Error creating job:'' err]))"

subsection \<open>Modals\<close>

text \<open>\<^verbatim>\<open>UploadModal\<close>: the chosen file, or none yet.\<close>

definition UploadModal_handleSubmit ::
  "string \<Rightarrow> (string \<rightharpoonup> string) \<Rightarrow> File option \<Rightarrow> axios_error + unit \<Rightarrow> axios_error + Resume list
     \<Rightarrow> Candidate_state \<Rightarrow> Candidate_state \<times> event list" where
  "UploadModal_handleSubmit API common file post_resp get_resp st =
     (case file of
        Some f \<Rightarrow> handleUploadResume API common f post_resp get_resp st
      | None \<Rightarrow> (st, []))"

record ApplicationModal_state =
  selectedResume :: string
  coverLetter :: string

definition ApplicationModal_handleSubmit ::
  "string \<Rightarrow> (string \<rightharpoonup> string) \<Rightarrow> Job \<Rightarrow> ApplicationModal_state
     \<Rightarrow> axios_error + unit \<Rightarrow> axios_error + Application list
     \<Rightarrow> Candidate_state \<Rightarrow> Candidate_state \<times> event list" where
  "ApplicationModal_handleSubmit API common job m post_resp get_resp st =
     (if selectedResume m \<noteq> []
      then handleApplyToJob API common (job_ident job) (selectedResume m) (coverLetter m)
             post_resp get_resp st
      else (st, []))"

record jobData =
  title :: string
  company :: string
  location :: string
  salary_min :: string
  salary_max :: string
  description :: string
  requirements :: "string list"
  job_type :: string

text \<open>
  JavaScript's white space within the 8-bit range: TAB, LF, VT, FF, CR, SPACE and
  NO-BREAK SPACE. \<^verbatim>\<open>String.prototype.trim\<close> strips it from both ends;
  \<^verbatim>\<open>parseInt\<close> skips it at the front.
\<close>

definition isWhiteSpace :: "char \<Rightarrow> bool" where
  "isWhiteSpace c = ((of_char c :: nat) \<in> {9, 10, 11, 12, 13, 32, 160})"

definition trim :: "string \<Rightarrow> string" where
  "trim s = rev (dropWhile isWhiteSpace (rev (dropWhile isWhiteSpace s)))"

definition digit_of :: "char \<Rightarrow> nat option" where
  "digit_of c =
     (let n = (of_char c :: nat) in
      if 48 \<le> n \<and> n \<le> 57 then Some (n - 48)
      else if 97 \<le> n \<and> n \<le> 122 then Some (n - 87)
      else if 65 \<le> n \<and> n \<le> 90 then Some (n - 55)
      else None)"

definition radix_digit :: "nat \<Rightarrow> char \<Rightarrow> bool" where
  "radix_digit R c = (case digit_of c of None \<Rightarrow> False | Some d \<Rightarrow> d < R)"

definition digits_value :: "nat \<Rightarrow> string \<Rightarrow> int" where
  "digits_value R Z = foldl (\<lambda>acc c. acc * int R + int (case digit_of c of None \<Rightarrow> 0 | Some d \<Rightarrow> d)) 0 Z"

text \<open>
  The number value of a non-zero integer: a JavaScript number is an IEEE 754 double, so
  a magnitude above \<open>2 ^ 53\<close> is rounded to 53 significant bits, to nearest with ties
  to the even significand, and a magnitude that rounds to \<open>2 ^ 1024\<close> or more is
  infinite. \<open>round_to_double\<close> answers \<open>None\<close> for the infinite case.
\<close>

fun bit_length :: "nat \<Rightarrow> nat" where
  "bit_length n = (if n = 0 then 0 else Suc (bit_length (n div 2)))"

declare bit_length.simps [simp del]

definition round_to_53_bits :: "nat \<Rightarrow> nat" where
  "round_to_53_bits a =
     (let e = bit_length a - 53;
          q = a div 2 ^ e;
          r = a mod 2 ^ e;
          h = 2 ^ (e - 1);
          q' = (if h < r \<or> (r = h \<and> odd q) then q + 1 else q)
      in q' * 2 ^ e)"

definition round_to_double :: "nat \<Rightarrow> nat option" where
  "round_to_double a =
     (if a \<le> 2 ^ 53 then Some a
      else if 2 ^ 1024 \<le> round_to_53_bits a then None
      else Some (round_to_53_bits a))"

definition to_number :: "int \<Rightarrow> jsnum" where
  "to_number n =
     (case round_to_double (nat \<bar>n\<bar>) of
        None \<Rightarrow> if n < 0 then NegInfinity else Infinity
      | Some v \<Rightarrow> Num (if n < 0 then - int v else int v))"

text \<open>
  \<^verbatim>\<open>parseInt(string)\<close> with no radix, after ECMA-262: skip leading white space, take
  a sign, take a \<^verbatim>\<open>0x\<close>/\<^verbatim>\<open>0X\<close> prefix as radix 16 and radix 10 otherwise, read the
  longest run of digits of that radix, and answer \<^verbatim>\<open>NaN\<close> when the run is empty;
  a run of value zero gives \<^verbatim>\<open>-0\<close> under a minus sign and \<^verbatim>\<open>0\<close> otherwise, and
  any other run gives the number value of the signed integer. (ECMA-262 lets an engine
  replace the decimal digits after the twentieth significant one by zeros; the model
  keeps them.)
\<close>

definition parseInt :: "string \<Rightarrow> jsnum" where
  "parseInt s =
     (let S = dropWhile isWhiteSpace s;
          sign = (if take 1 S = ''-'' then - 1 else 1 :: int);
          S1 = (if take 1 S = ''-'' \<or> take 1 S = ''+'' then drop 1 S else S);
          R = (if take 2 S1 = ''0x'' \<or> take 2 S1 = ''0X'' then 16 else 10 :: nat);
          S2 = (if R = 16 then drop 2 S1 else S1);
          Z = takeWhile (radix_digit R) S2;
          mathInt = digits_value R Z
      in if Z = [] then NaN
         else if mathInt = 0 then (if sign = - 1 then NegZero else Num 0)
         else to_number (sign * mathInt))"

definition formatJobData :: "jobData \<Rightarrow> formattedData" where
  "formatJobData jd =
     \<lparr> f_title = title jd,
       f_company = company jd,
       f_location = location jd,
       f_salary_min = (if salary_min jd \<noteq> [] then Some (parseInt (salary_min jd)) else None),
       f_salary_max = (if salary_max jd \<noteq> [] then Some (parseInt (salary_max jd)) else None),
       f_description = description jd,
       f_requirements = filter (\<lambda>req. trim req \<noteq> []) (requirements jd),
       f_job_type = job_type jd \<rparr>"

definition JobModal_handleSubmit ::
  "string \<Rightarrow> (string \<rightharpoonup> string) \<Rightarrow> jobData \<Rightarrow> axios_error + unit \<Rightarrow> axios_error + Job list
     \<Rightarrow> Employer_state \<Rightarrow> Employer_state \<times> event list" where
  "JobModal_handleSubmit API common jd post_resp get_resp st =
     handleCreateJob API common (formatJobData jd) post_resp get_resp st"

subsection \<open>Initial component state\<close>

text \<open>The dashboards as \<^verbatim>\<open>useState\<close> initialises them.\<close>

definition Candidate_initial :: Candidate_state where
  "Candidate_initial =
     \<lparr> jobs = [], resumes = [], applications = [], selectedJob = None,
       showUploadModal = False, showApplicationModal = False \<rparr>"

definition Employer_initial :: Employer_state where
  "Employer_initial = \<lparr> employer_jobs = [], employer_applications = [], showJobModal = False \<rparr>"

definition Register_initial :: Register_state where
  "Register_initial =
     \<lparr> formData = \<lparr> email = [], password = [], reg_full_name = [], reg_role = ''candidate'',
                    company_name = [], phone = [] \<rparr>,
       register_error = JString [] \<rparr>"

definition ApplicationModal_initial :: ApplicationModal_state where
  "ApplicationModal_initial = \<lparr> selectedResume = [], coverLetter = [] \<rparr>"

subsection \<open>Sample data\<close>

definition alice :: User where
  "alice = \<lparr> full_name = ''Alice'', role = ''candidate'' \<rparr>"

definition alice_token :: token_response where
  "alice_token = \<lparr> access_token = ''t1'', resp_user = alice \<rparr>"

text \<open>A first visit, then \<^verbatim>\<open>login("alice@x.com", "pw")\<close> answered with token \<^verbatim>\<open>t1\<close>.\<close>

definition alice_session :: session where
  "alice_session =
     fst (login ''/api'' ''alice@x.com'' ''pw'' (Inr alice_token)
            (fst (AuthProvider_effect ''/api'' (Inr alice) (page_load Map.empty))))"


text \<open>
  Rejections: one whose body carries an empty \<^verbatim>\<open>detail\<close>, one with a message, one
  whose \<^verbatim>\<open>detail\<close> is a list of validation errors, and one with no response at all.
\<close>

definition empty_detail_error :: axios_error where
  "empty_detail_error = \<lparr> response = Some \<lparr> data = Some \<lparr> detail = Some (JString []) \<rparr> \<rparr> \<rparr>"

definition invalid_credentials :: axios_error where
  "invalid_credentials =
     \<lparr> response = Some \<lparr> data = Some \<lparr> detail = Some (JString ''Incorrect email or password'') \<rparr> \<rparr> \<rparr>"

definition validation_error :: axios_error where
  "validation_error =
     \<lparr> response = Some \<lparr> data = Some \<lparr> detail = Some (JArray
         [JObject [(''loc'', JArray [JString ''body'', JString ''email'']),
                   (''msg'', JString ''value is not a valid email address''),
                   (''type'', JString ''value_error'')]]) \<rparr> \<rparr> \<rparr>"

definition network_error :: axios_error where
  "network_error = \<lparr> response = None \<rparr>"

definition expired_token_error :: axios_error where
  "expired_token_error =
     \<lparr> response = Some \<lparr> data = Some \<lparr> detail = Some (JString ''Could not validate credentials'') \<rparr> \<rparr> \<rparr>"

text \<open>
  A page load at \<^verbatim>\<open>/login\<close> with the expired token \<^verbatim>\<open>t0\<close> in storage: the effect
  attaches it and \<^verbatim>\<open>/me\<close> is on its way; the login form, which that route shows
  without waiting, is submitted and answered with token \<^verbatim>\<open>t1\<close>; then \<^verbatim>\<open>/me\<close> is
  rejected.
\<close>

definition awaiting_me :: session where
  "awaiting_me = attach_token ''t0'' (page_load [''token'' \<mapsto> ''t0''])"

definition logged_in_meanwhile :: session where
  "logged_in_meanwhile = fst (login ''/api'' ''alice@x.com'' ''pw'' (Inr alice_token) awaiting_me)"

definition overlapped_login :: session where
  "overlapped_login = fetchUser_settled (Inl expired_token_error) logged_in_meanwhile"

definition sample_form :: register_form where
  "sample_form = \<lparr> email = ''bob@x.com'', password = ''pw'', reg_full_name = ''Bob'',
                    reg_role = ''candidate'', company_name = [], phone = [] \<rparr>"


definition sample_jobData :: jobData where
  "sample_jobData =
     \<lparr> title = ''Engineer'', company = ''Acme'', location = ''Remote'',
       salary_min = ''50000'', salary_max = [], description = ''Build things'',
       requirements = [''SQL'', ''  '', [], '' Git ''], job_type = ''full-time'' \<rparr>"

text \<open>A stand-in for the browser's address syntax: the value has an \<^verbatim>\<open>@\<close>.\<close>

definition simple_email :: "string \<Rightarrow> bool" where
  "simple_email v = (CHR ''@'' \<in> set v)"

definition employer_form :: register_form where
  "employer_form = \<lparr> email = ''eve@acme.com'', password = ''pw'', reg_full_name = ''Eve'',
                      reg_role = ''employer'', company_name = [], phone = [] \<rparr>"

definition sample_job :: Job where
  "sample_job = \<lparr> job_ident = ''j1'', job_title = ''Engineer'', job_company = ''Acme'',
                   job_location = ''Remote'', job_description = ''Build things'' \<rparr>"

subsection \<open>Vocabulary of the statements\<close>

text \<open>The requests among the events, in order.\<close>

fun sent_requests :: "event list \<Rightarrow> request list" where
  "sent_requests [] = []"
| "sent_requests (Sent r # evs) = r # sent_requests evs"
| "sent_requests (ConsoleError _ _ # evs) = sent_requests evs"


text \<open>
  Numerals read by position, independently of the parser: the value of a string of
  decimal digits, and of a string of hexadecimal digits.
\<close>

definition decimal_digit :: "char \<Rightarrow> bool" where
  "decimal_digit c = (48 \<le> (of_char c :: nat) \<and> (of_char c :: nat) \<le> 57)"

definition decimal_value :: "string \<Rightarrow> nat" where
  "decimal_value ds = (\<Sum>i<length ds. (of_char (ds ! i) - 48) * 10 ^ (length ds - Suc i))"

definition hex_digit :: "char \<Rightarrow> bool" where
  "hex_digit c =
     (decimal_digit c \<or> (97 \<le> (of_char c :: nat) \<and> (of_char c :: nat) \<le> 102)
      \<or> (65 \<le> (of_char c :: nat) \<and> (of_char c :: nat) \<le> 70))"

definition hex_digit_value :: "char \<Rightarrow> nat" where
  "hex_digit_value c =
     (if decimal_digit c then of_char c - 48
      else if 97 \<le> (of_char c :: nat) then of_char c - 87
      else of_char c - 55)"

definition hex_value :: "string \<Rightarrow> nat" where
  "hex_value hs = (\<Sum>i<length hs. hex_digit_value (hs ! i) * 16 ^ (length hs - Suc i))"

text \<open>\<^verbatim>\<open>error.response?.data?.detail\<close> read as a path: the detail when every step is there.\<close>

definition detail_of :: "axios_error \<Rightarrow> jsval option" where
  "detail_of err = Option.bind (Option.bind (response err) data) detail"

text \<open>An event respects the Authorization value \<open>a\<close>: a request sent carries exactly it.\<close>

definition carries_authorization :: "string option \<Rightarrow> event \<Rightarrow> bool" where
  "carries_authorization a e =
     (case e of Sent r \<Rightarrow> headers r ''Authorization'' = a | ConsoleError _ _ \<Rightarrow> True)"

text \<open>
  The sessions the provider can be in, with the flag telling whether the start-up
  \<^verbatim>\<open>/me\<close> is still awaited. A page load leaves the token attached and \<^verbatim>\<open>/me\<close>
  pending, or nothing pending when there is no token to try; \<^verbatim>\<open>/me\<close> settles on the
  state of that moment; and \<^verbatim>\<open>login\<close>, \<^verbatim>\<open>register\<close> and \<^verbatim>\<open>logout\<close> may settle at
  any time, before \<^verbatim>\<open>/me\<close> has settled too, since the \<^verbatim>\<open>/login\<close> route shows its
  form without waiting. The dashboards never write the session.
\<close>

inductive runs :: "bool \<Rightarrow> session \<Rightarrow> bool" where
  started: "storage ''token'' = Some t \<Longrightarrow> t \<noteq> [] \<Longrightarrow>
     runs True (attach_token t (page_load storage))"
| nothing_to_restore: "storage ''token'' = None \<or> storage ''token'' = Some [] \<Longrightarrow>
     runs False ((page_load storage)\<lparr> loading := False \<rparr>)"
| me_settled: "runs True s \<Longrightarrow> runs False (fetchUser_settled resp s)"
| logged_in: "runs pending s \<Longrightarrow> runs pending (fst (login API em pw resp s))"
| registered: "runs pending s \<Longrightarrow> runs pending (fst (register API userData resp s))"
| logged_out: "runs pending s \<Longrightarrow> runs pending (logout s)"

text \<open>
  The runs among them in which the start-up has settled before anything else
  happens: the state a completed page load leaves, and whatever \<^verbatim>\<open>login\<close>,
  \<^verbatim>\<open>register\<close> and \<^verbatim>\<open>logout\<close> make of such a state.
\<close>

inductive sequential :: "session \<Rightarrow> bool" where
  loaded: "sequential (fst (AuthProvider_effect API resp (page_load storage)))"
| logged_in: "sequential s \<Longrightarrow> sequential (fst (login API em pw resp s))"
| registered: "sequential s \<Longrightarrow> sequential (fst (register API userData resp s))"
| logged_out: "sequential s \<Longrightarrow> sequential (logout s)"

text \<open>Where there is a user, the persisted token is there and the header is its bearer form.\<close>

definition token_in_step :: "session \<Rightarrow> bool" where
  "token_in_step s =
     (case user s of
        None \<Rightarrow> True
      | Some _ \<Rightarrow>
          (case localStorage s ''token'' of
             None \<Rightarrow> False
           | Some t \<Rightarrow> headers_common s ''Authorization'' = Some (''Bearer '' @ t)))"

section \<open>Properties\<close>

text \<open>
  C5. \<^verbatim>\<open>logout\<close> removes the persisted token, the Authorization default header and the
  current user. A reload after it finds no token, sends nothing and ends on the login
  screen; and where the Logout button is on screen (the guard is showing a dashboard),
  the render that follows the click shows the login screen.
\<close>

theorem logout_clears_session:
  "localStorage (logout s) ''token'' = None
   \<and> headers_common (logout s) ''Authorization'' = None
   \<and> user (logout s) = None
   \<and> snd (AuthProvider_effect API resp (reload (logout s))) = []
   \<and> ProtectedRoute (fst (AuthProvider_effect API resp (reload (logout s)))) = LoginScreen
   \<and> (ProtectedRoute s = Page d \<longrightarrow> ProtectedRoute (logout s) = LoginScreen)"
  by (auto simp: logout_def reload_def page_load_def AuthProvider_effect_def ProtectedRoute_def
      split: if_splits option.splits)

theorem logout_clears_session_witness:
  "ProtectedRoute alice_session = Page CandidateDashboard
   \<and> ProtectedRoute (logout alice_session) = LoginScreen"
  using logout_clears_session [of alice_session "''/api''" "Inr alice" CandidateDashboard]
  by (simp add: alice_session_def alice_token_def alice_def login_def AuthProvider_effect_def
      page_load_def ProtectedRoute_def Dashboard_def)

lemma error_message_detail:
  "error_message err fb =
     (case detail_of err of None \<Rightarrow> JString fb | Some d \<Rightarrow> if truthy d then d else JString fb)"
  by (simp add: error_message_def detail_of_def split: option.splits)


lemma error_message_string:
  "detail_of err = Some (JString m) \<Longrightarrow> m \<noteq> [] \<Longrightarrow> error_message err fb = JString m"
  by (simp add: error_message_detail)

lemma error_message_fallback:
  "detail_of err = None \<or> (\<exists>d. detail_of err = Some d \<and> \<not> truthy d) \<Longrightarrow>
     error_message err fb = JString fb"
  by (auto simp: error_message_detail)

lemma login_fulfilled:
  "login API em pw (Inr r) s =
     (s\<lparr> localStorage := (localStorage s)(''token'' \<mapsto> access_token r),
         headers_common := (headers_common s)(''Authorization'' \<mapsto> ''Bearer '' @ access_token r),
         user := Some (resp_user r) \<rparr>,
      [Sent (axios_post (headers_common s) (API @ ''/login'') (Credentials em pw) Map.empty)],
      Success)"
  by (simp add: login_def)

lemma login_rejected:
  "login API em pw (Inl err) s =
     (s, [Sent (axios_post (headers_common s) (API @ ''/login'') (Credentials em pw) Map.empty)],
      Failure (error_message err ''Login failed''))"
  by (simp add: login_def)

lemma register_fulfilled:
  "register API userData (Inr r) s =
     (s\<lparr> localStorage := (localStorage s)(''token'' \<mapsto> access_token r),
         headers_common := (headers_common s)(''Authorization'' \<mapsto> ''Bearer '' @ access_token r),
         user := Some (resp_user r) \<rparr>,
      [Sent (axios_post (headers_common s) (API @ ''/register'') (RegisterBody userData) Map.empty)],
      Success)"
  by (simp add: register_def)

lemma register_rejected:
  "register API userData (Inl err) s =
     (s, [Sent (axios_post (headers_common s) (API @ ''/register'') (RegisterBody userData) Map.empty)],
      Failure (error_message err ''Registration failed''))"
  by (simp add: register_def)

text \<open>
  C1 (as amended). A fulfilled \<^verbatim>\<open>login\<close> or \<^verbatim>\<open>register\<close> stores the returned token
  under \<^verbatim>\<open>token\<close>, installs \<^verbatim>\<open>Bearer <token>\<close> as the default Authorization header
  (so a request built afterwards carries it), sets the returned user and answers
  success. A rejected one leaves the whole session as it was, token, header and user,
  and answers a failure whose error is the response's \<^verbatim>\<open>detail\<close> when that is truthy
  and the generic message otherwise: it is the \<^verbatim>\<open>detail\<close> string when the \<^verbatim>\<open>detail\<close>
  is a non-empty string, and the generic message when the \<^verbatim>\<open>detail\<close> is missing or
  falsy, the empty string included.
\<close>

theorem login_register_contract:
  "(let s' = fst (login API em pw (Inr r) s) in
      localStorage s' ''token'' = Some (access_token r)
      \<and> headers_common s' ''Authorization'' = Some (''Bearer '' @ access_token r)
      \<and> headers (axios_get (headers_common s') u) ''Authorization'' = Some (''Bearer '' @ access_token r)
      \<and> user s' = Some (resp_user r))
   \<and> snd (snd (login API em pw (Inr r) s)) = Success
   \<and> fst (login API em pw (Inl err) s) = s
   \<and> snd (snd (login API em pw (Inl err) s)) =
       Failure (case detail_of err of None \<Rightarrow> JString ''Login failed''
                | Some d \<Rightarrow> if truthy d then d else JString ''Login failed'')
   \<and> (detail_of err = Some (JString m) \<and> m \<noteq> [] \<longrightarrow>
        snd (snd (login API em pw (Inl err) s)) = Failure (JString m))
   \<and> (detail_of err = None \<or> (\<exists>d. detail_of err = Some d \<and> \<not> truthy d) \<longrightarrow>
        snd (snd (login API em pw (Inl err) s)) = Failure (JString ''Login failed''))
   \<and> (let s' = fst (register API userData (Inr r) s) in
      localStorage s' ''token'' = Some (access_token r)
      \<and> headers_common s' ''Authorization'' = Some (''Bearer '' @ access_token r)
      \<and> headers (axios_get (headers_common s') u) ''Authorization'' = Some (''Bearer '' @ access_token r)
      \<and> user s' = Some (resp_user r))
   \<and> snd (snd (register API userData (Inr r) s)) = Success
   \<and> fst (register API userData (Inl err) s) = s
   \<and> snd (snd (register API userData (Inl err) s)) =
       Failure (case detail_of err of None \<Rightarrow> JString ''Registration failed''
                | Some d \<Rightarrow> if truthy d then d else JString ''Registration failed'')
   \<and> (detail_of err = Some (JString m) \<and> m \<noteq> [] \<longrightarrow>
        snd (snd (register API userData (Inl err) s)) = Failure (JString m))
   \<and> (detail_of err = None \<or> (\<exists>d. detail_of err = Some d \<and> \<not> truthy d) \<longrightarrow>
        snd (snd (register API userData (Inl err) s)) = Failure (JString ''Registration failed''))"
proof -
  have ok: "let s' = fst (login API em pw (Inr r) s) in
      localStorage s' ''token'' = Some (access_token r)
      \<and> headers_common s' ''Authorization'' = Some (''Bearer '' @ access_token r)
      \<and> headers (axios_get (headers_common s') u) ''Authorization'' = Some (''Bearer '' @ access_token r)
      \<and> user s' = Some (resp_user r)"
    "snd (snd (login API em pw (Inr r) s)) = Success"
    "let s' = fst (register API userData (Inr r) s) in
      localStorage s' ''token'' = Some (access_token r)
      \<and> headers_common s' ''Authorization'' = Some (''Bearer '' @ access_token r)
      \<and> headers (axios_get (headers_common s') u) ''Authorization'' = Some (''Bearer '' @ access_token r)
      \<and> user s' = Some (resp_user r)"
    "snd (snd (register API userData (Inr r) s)) = Success"
    by (simp_all add: login_fulfilled register_fulfilled axios_get_def Let_def)
  have ko: "fst (login API em pw (Inl err) s) = s"
    "snd (snd (login API em pw (Inl err) s)) =
       Failure (case detail_of err of None \<Rightarrow> JString ''Login failed''
                | Some d \<Rightarrow> if truthy d then d else JString ''Login failed'')"
    "fst (register API userData (Inl err) s) = s"
    "snd (snd (register API userData (Inl err) s)) =
       Failure (case detail_of err of None \<Rightarrow> JString ''Registration failed''
                | Some d \<Rightarrow> if truthy d then d else JString ''Registration failed'')"
    by (simp_all add: login_rejected register_rejected error_message_detail)
  have str: "detail_of err = Some (JString m) \<and> m \<noteq> [] \<longrightarrow>
        snd (snd (login API em pw (Inl err) s)) = Failure (JString m)"
    "detail_of err = Some (JString m) \<and> m \<noteq> [] \<longrightarrow>
        snd (snd (register API userData (Inl err) s)) = Failure (JString m)"
    by (simp_all add: login_rejected register_rejected error_message_string)
  have fb: "detail_of err = None \<or> (\<exists>d. detail_of err = Some d \<and> \<not> truthy d) \<longrightarrow>
        snd (snd (login API em pw (Inl err) s)) = Failure (JString ''Login failed'')"
    "detail_of err = None \<or> (\<exists>d. detail_of err = Some d \<and> \<not> truthy d) \<longrightarrow>
        snd (snd (register API userData (Inl err) s)) = Failure (JString ''Registration failed'')"
    by (simp_all add: login_rejected register_rejected error_message_fallback)
  from ok ko str fb show ?thesis by (intro conjI)
qed

theorem login_register_contract_witness:
  "snd (snd (login ''/api'' ''alice@x.com'' ''pw'' (Inl invalid_credentials) (page_load Map.empty)))
     = Failure (JString ''Incorrect email or password'')
   \<and> snd (snd (login ''/api'' ''alice@x.com'' ''pw'' (Inl network_error) (page_load Map.empty)))
     = Failure (JString ''Login failed'')
   \<and> snd (snd (register ''/api'' sample_form (Inl empty_detail_error) (page_load Map.empty)))
     = Failure (JString ''Registration failed'')
   \<and> user (fst (login ''/api'' ''alice@x.com'' ''pw'' (Inr alice_token) (page_load Map.empty)))
     = Some alice"
  using login_register_contract [where API = "''/api''" and em = "''alice@x.com''" and pw = "''pw''"
      and err = invalid_credentials and s = "page_load Map.empty" and r = alice_token
      and m = "''Incorrect email or password''"]
    login_register_contract [where API = "''/api''" and em = "''alice@x.com''" and pw = "''pw''"
      and err = network_error and s = "page_load Map.empty"]
    login_register_contract [where API = "''/api''" and userData = sample_form
      and err = empty_detail_error and s = "page_load Map.empty"]
  by (simp add: detail_of_def invalid_credentials_def network_error_def empty_detail_error_def
      alice_token_def Let_def)

text \<open>
  C1 as stated has every failed call return an error string taken from the
  \<^verbatim>\<open>detail\<close> field whenever the response has one. A \<^verbatim>\<open>detail\<close> that is the empty
  string is answered with the generic message instead, since \<^verbatim>\<open>||\<close> falls back on
  every falsy value; and a \<^verbatim>\<open>detail\<close> that is a list of validation errors is
  returned as that list, which is no string.
\<close>

theorem empty_detail_counterexample:
  "detail_of empty_detail_error = Some (JString [])
   \<and> snd (snd (login ''/api'' ''alice@x.com'' ''pw'' (Inl empty_detail_error) (page_load Map.empty)))
       = Failure (JString ''Login failed'')
   \<and> snd (snd (login ''/api'' ''alice@x.com'' ''pw'' (Inl empty_detail_error) (page_load Map.empty)))
       \<noteq> Failure (JString [])
   \<and> snd (snd (register ''/api'' sample_form (Inl empty_detail_error) (page_load Map.empty)))
       = Failure (JString ''Registration failed'')
   \<and> snd (snd (login ''/api'' ''alice@x.com'' ''pw'' (Inl validation_error) (page_load Map.empty)))
       = Failure (JArray
           [JObject [(''loc'', JArray [JString ''body'', JString ''email'']),
                     (''msg'', JString ''value is not a valid email address''),
                     (''type'', JString ''value_error'')]])"
  by (simp add: detail_of_def empty_detail_error_def validation_error_def login_def register_def
      error_message_def)










lemma token_in_step_login: "token_in_step (fst (login API em pw (Inr r) s))"
  by (simp add: token_in_step_def login_def)

lemma token_in_step_register: "token_in_step (fst (register API userData (Inr r) s))"
  by (simp add: token_in_step_def register_def)

lemma token_in_step_logout: "token_in_step (logout s)"
  by (simp add: token_in_step_def logout_def)

lemma token_in_step_loaded: "token_in_step (fst (AuthProvider_effect API resp (page_load storage)))"
  by (cases resp)
     (simp_all add: token_in_step_def AuthProvider_effect_def fetchUser_def attach_token_def
        page_load_def split: option.splits)

lemma sequential_token_in_step: "sequential s \<Longrightarrow> token_in_step s"
proof (induction rule: sequential.induct)
  case (loaded API resp storage)
  show ?case by (rule token_in_step_loaded)
next
  case (logged_in s API em pw resp)
  then show ?case by (cases resp) (simp_all add: token_in_step_login login_rejected)
next
  case (registered s API userData resp)
  then show ?case by (cases resp) (simp_all add: token_in_step_register register_rejected)
next
  case (logged_out s)
  show ?case by (rule token_in_step_logout)
qed

lemma axios_get_authorization:
  "carries_authorization (common ''Authorization'') (Sent (axios_get common u))"
  by (simp add: carries_authorization_def axios_get_def)

lemma axios_post_authorization:
  "cfg ''Authorization'' = None \<Longrightarrow>
     carries_authorization (common ''Authorization'') (Sent (axios_post common u b cfg))"
  by (simp add: carries_authorization_def axios_post_def map_add_def)

lemma console_authorization: "carries_authorization a (ConsoleError l e)"
  by (simp add: carries_authorization_def)

lemmas carries_simps = axios_get_authorization axios_post_authorization console_authorization

lemma fetchJobs_carries:
  "list_all (carries_authorization (common ''Authorization'')) (snd (fetchJobs API common resp st))"
  by (cases resp) (simp_all add: fetchJobs_def carries_simps)

lemma fetchResumes_carries:
  "list_all (carries_authorization (common ''Authorization'')) (snd (fetchResumes API common resp st))"
  by (cases resp) (simp_all add: fetchResumes_def carries_simps)

lemma fetchApplications_carries:
  "list_all (carries_authorization (common ''Authorization'')) (snd (fetchApplications API common resp st))"
  by (cases resp) (simp_all add: fetchApplications_def carries_simps)

lemma Employer_fetchJobs_carries:
  "list_all (carries_authorization (common ''Authorization'')) (snd (Employer_fetchJobs API common resp st))"
  by (cases resp) (simp_all add: Employer_fetchJobs_def carries_simps)

lemma Employer_fetchApplications_carries:
  "list_all (carries_authorization (common ''Authorization'')) (snd (Employer_fetchApplications API common resp st))"
  by (cases resp) (simp_all add: Employer_fetchApplications_def carries_simps)

lemma handleUploadResume_carries:
  "list_all (carries_authorization (common ''Authorization''))
     (snd (handleUploadResume API common file post_resp get_resp st))"
  using fetchResumes_carries [of common API get_resp st]
  by (cases post_resp) (simp_all add: handleUploadResume_def carries_simps case_prod_beta)

lemma handleApplyToJob_carries:
  "list_all (carries_authorization (common ''Authorization''))
     (snd (handleApplyToJob API common j r c post_resp get_resp st))"
  using fetchApplications_carries [of common API get_resp st]
  by (cases post_resp) (simp_all add: handleApplyToJob_def carries_simps case_prod_beta)

lemma handleCreateJob_carries:
  "list_all (carries_authorization (common ''Authorization''))
     (snd (handleCreateJob API common jd post_resp get_resp st))"
  using Employer_fetchJobs_carries [of common API get_resp st]
  by (cases post_resp) (simp_all add: handleCreateJob_def carries_simps case_prod_beta)

lemma fetchUser_settled_eq: "fst (fetchUser API resp s) = fetchUser_settled resp s"
  by (cases resp) (simp_all add: fetchUser_def fetchUser_settled_def)

lemma sequential_runs: "sequential s \<Longrightarrow> runs False s"
proof (induction rule: sequential.induct)
  case (loaded API resp storage)
  show ?case
  proof (cases "storage ''token'' = None \<or> storage ''token'' = Some []")
    case True
    then have "fst (AuthProvider_effect API resp (page_load storage))
        = (page_load storage)\<lparr> loading := False \<rparr>"
      by (auto simp: AuthProvider_effect_def page_load_def)
    with True show ?thesis by (simp add: runs.nothing_to_restore)
  next
    case False
    then obtain t where t: "storage ''token'' = Some t" "t \<noteq> []" by auto
    then have "fst (AuthProvider_effect API resp (page_load storage))
        = fetchUser_settled resp (attach_token t (page_load storage))"
      by (simp add: AuthProvider_effect_def page_load_def fetchUser_settled_eq)
    with t show ?thesis by (simp add: runs.started runs.me_settled)
  qed
next
  case (logged_in s API em pw resp)
  then show ?case by (simp add: runs.logged_in)
next
  case (registered s API userData resp)
  then show ?case by (simp add: runs.registered)
next
  case (logged_out s)
  then show ?case by (simp add: runs.logged_out)
qed

text \<open>
  Where every operation settles before the next one starts, a session with a user has
  its token persisted, still there after a reload, and \<^verbatim>\<open>Bearer\<close> followed by that
  token as the default Authorization header; a fulfilled \<^verbatim>\<open>login\<close> or
  \<^verbatim>\<open>register\<close> installs the returned token in both places; and every request that a
  dashboard fetch or mutation sends carries the default Authorization header of the
  session, the multipart upload included.
\<close>

lemma sequential_bearer_token:
  "(sequential s \<and> user s = Some u \<longrightarrow>
      (\<exists>t. localStorage s ''token'' = Some t
          \<and> localStorage (reload s) ''token'' = Some t
          \<and> headers_common s ''Authorization'' = Some (''Bearer '' @ t)))
   \<and> headers_common (fst (login API em pw (Inr r) s)) ''Authorization'' = Some (''Bearer '' @ access_token r)
   \<and> localStorage (reload (fst (login API em pw (Inr r) s))) ''token'' = Some (access_token r)
   \<and> headers_common (fst (register API userData (Inr r) s)) ''Authorization'' = Some (''Bearer '' @ access_token r)
   \<and> localStorage (reload (fst (register API userData (Inr r) s))) ''token'' = Some (access_token r)
   \<and> list_all (carries_authorization (headers_common s ''Authorization''))
       (snd (fetchJobs API (headers_common s) jobs_resp cst)
        @ snd (fetchResumes API (headers_common s) resumes_resp cst)
        @ snd (fetchApplications API (headers_common s) apps_resp cst)
        @ snd (handleUploadResume API (headers_common s) upload post_resp resumes_resp cst)
        @ snd (handleApplyToJob API (headers_common s) jobId resumeId letter post_resp apps_resp cst)
        @ snd (Employer_fetchJobs API (headers_common s) jobs_resp est)
        @ snd (Employer_fetchApplications API (headers_common s) apps_resp est)
        @ snd (handleCreateJob API (headers_common s) jd post_resp jobs_resp est))"
proof -
  have inv: "sequential s \<and> user s = Some u \<longrightarrow>
      (\<exists>t. localStorage s ''token'' = Some t
          \<and> localStorage (reload s) ''token'' = Some t
          \<and> headers_common s ''Authorization'' = Some (''Bearer '' @ t))"
  proof
    assume a: "sequential s \<and> user s = Some u"
    then have "token_in_step s" by (simp add: sequential_token_in_step)
    with a show "\<exists>t. localStorage s ''token'' = Some t
          \<and> localStorage (reload s) ''token'' = Some t
          \<and> headers_common s ''Authorization'' = Some (''Bearer '' @ t)"
      by (auto simp: token_in_step_def reload_def page_load_def split: option.splits)
  qed
  have sess: "headers_common (fst (login API em pw (Inr r) s)) ''Authorization'' = Some (''Bearer '' @ access_token r)"
    "localStorage (reload (fst (login API em pw (Inr r) s))) ''token'' = Some (access_token r)"
    "headers_common (fst (register API userData (Inr r) s)) ''Authorization'' = Some (''Bearer '' @ access_token r)"
    "localStorage (reload (fst (register API userData (Inr r) s))) ''token'' = Some (access_token r)"
    by (simp_all add: login_def register_def reload_def page_load_def)
  have reqs: "list_all (carries_authorization (headers_common s ''Authorization''))
       (snd (fetchJobs API (headers_common s) jobs_resp cst)
        @ snd (fetchResumes API (headers_common s) resumes_resp cst)
        @ snd (fetchApplications API (headers_common s) apps_resp cst)
        @ snd (handleUploadResume API (headers_common s) upload post_resp resumes_resp cst)
        @ snd (handleApplyToJob API (headers_common s) jobId resumeId letter post_resp apps_resp cst)
        @ snd (Employer_fetchJobs API (headers_common s) jobs_resp est)
        @ snd (Employer_fetchApplications API (headers_common s) apps_resp est)
        @ snd (handleCreateJob API (headers_common s) jd post_resp jobs_resp est))"
    by (simp add: fetchJobs_carries fetchResumes_carries fetchApplications_carries
        handleUploadResume_carries handleApplyToJob_carries Employer_fetchJobs_carries
        Employer_fetchApplications_carries handleCreateJob_carries)
  from inv sess reqs show ?thesis by (intro conjI)
qed

lemma overlapped_login_runs: "runs False overlapped_login"
proof -
  have "runs True awaiting_me"
    unfolding awaiting_me_def by (rule runs.started) simp_all
  then have "runs True logged_in_meanwhile"
    unfolding logged_in_meanwhile_def by (rule runs.logged_in)
  then show ?thesis
    unfolding overlapped_login_def by (rule runs.me_settled)
qed

text \<open>
  C4. The claim has every request of an authenticated session carry \<^verbatim>\<open>Bearer\<close>
  followed by the session's token, and has the token persisted. The code keeps that
  only while the operations follow one another. In the run in which the start-up
  \<^verbatim>\<open>/me\<close> for an expired token is rejected after a login has been fulfilled, the
  login had stored token \<^verbatim>\<open>t1\<close> and installed \<^verbatim>\<open>Bearer t1\<close>, and the rejection then
  removes both while the user stays: the session is authenticated, the guard shows
  the candidate dashboard, and nothing is persisted and the dashboard's requests go
  out without an Authorization header.
\<close>

theorem stale_restore_drops_fresh_login:
  "runs False overlapped_login
   \<and> snd (AuthProvider_effect ''/api'' (Inl expired_token_error) (page_load [''token'' \<mapsto> ''t0'']))
       = [Sent (axios_get (headers_common awaiting_me) ''/api/me'')]
   \<and> user logged_in_meanwhile = Some alice
   \<and> localStorage logged_in_meanwhile ''token'' = Some ''t1''
   \<and> headers_common logged_in_meanwhile ''Authorization'' = Some ''Bearer t1''
   \<and> user overlapped_login = Some alice
   \<and> \<not> loading overlapped_login
   \<and> ProtectedRoute overlapped_login = Page CandidateDashboard
   \<and> localStorage overlapped_login ''token'' = None
   \<and> localStorage (reload overlapped_login) ''token'' = None
   \<and> headers_common overlapped_login ''Authorization'' = None
   \<and> headers (axios_get (headers_common overlapped_login) ''/api/jobs'') ''Authorization'' = None
   \<and> list_all (carries_authorization None)
        (snd (fetchJobs ''/api'' (headers_common overlapped_login) (Inr []) Candidate_initial))
   \<and> \<not> token_in_step overlapped_login"
proof -
  have tr: "snd (AuthProvider_effect ''/api'' (Inl expired_token_error) (page_load [''token'' \<mapsto> ''t0'']))
       = [Sent (axios_get (headers_common awaiting_me) ''/api/me'')]"
    by (simp add: AuthProvider_effect_def page_load_def fetchUser_def awaiting_me_def attach_token_def)
  have mid: "user logged_in_meanwhile = Some alice"
    "localStorage logged_in_meanwhile ''token'' = Some ''t1''"
    "headers_common logged_in_meanwhile ''Authorization'' = Some ''Bearer t1''"
    by (simp_all add: logged_in_meanwhile_def login_def alice_token_def)
  have fin: "user overlapped_login = Some alice"
    "\<not> loading overlapped_login"
    "ProtectedRoute overlapped_login = Page CandidateDashboard"
    "localStorage overlapped_login ''token'' = None"
    "localStorage (reload overlapped_login) ''token'' = None"
    "headers_common overlapped_login ''Authorization'' = None"
    by (simp_all add: overlapped_login_def fetchUser_settled_def logged_in_meanwhile_def
        login_def alice_token_def alice_def ProtectedRoute_def Dashboard_def reload_def
        page_load_def)
  from fin(6) have req: "headers (axios_get (headers_common overlapped_login) ''/api/jobs'') ''Authorization'' = None"
    "list_all (carries_authorization None)
        (snd (fetchJobs ''/api'' (headers_common overlapped_login) (Inr []) Candidate_initial))"
    by (simp_all add: axios_get_def fetchJobs_def carries_authorization_def)
  from fin have brk: "\<not> token_in_step overlapped_login"
    by (simp add: token_in_step_def)
  from overlapped_login_runs tr mid fin req brk show ?thesis by (intro conjI)
qed


lemma fetchResumes_rejected:
  "fetchResumes API c (Inl err) st =
     (st, [Sent (axios_get c (API @ ''/resumes'')), ConsoleError ''Error fetching resumes:'' err])"
  by (simp add: fetchResumes_def)

lemma fetchApplications_rejected:
  "fetchApplications API c (Inl err) st =
     (st, [Sent (axios_get c (API @ ''/applications'')), ConsoleError ''Error fetching applications:'' err])"
  by (simp add: fetchApplications_def)

lemma Employer_fetchJobs_rejected:
  "Employer_fetchJobs API c (Inl err) st =
     (st, [Sent (axios_get c (API @ ''/jobs'')), ConsoleError ''Error fetching jobs:'' err])"
  by (simp add: Employer_fetchJobs_def)


lemma fetchResumes_fulfilled:
  "fetchResumes API c (Inr d) st = (st\<lparr> resumes := d \<rparr>, [Sent (axios_get c (API @ ''/resumes''))])"
  by (simp add: fetchResumes_def)

lemma fetchApplications_fulfilled:
  "fetchApplications API c (Inr d) st =
     (st\<lparr> applications := d \<rparr>, [Sent (axios_get c (API @ ''/applications''))])"
  by (simp add: fetchApplications_def)

lemma Employer_fetchJobs_fulfilled:
  "Employer_fetchJobs API c (Inr d) st =
     (st\<lparr> employer_jobs := d \<rparr>, [Sent (axios_get c (API @ ''/jobs''))])"
  by (simp add: Employer_fetchJobs_def)

lemma handleUploadResume_rejected:
  "handleUploadResume API c f (Inl err) g st =
     (st, [Sent (axios_post c (API @ ''/resumes/upload'') (FormData f)
                   [''Content-Type'' \<mapsto> ''multipart/form-data'']),
           ConsoleError ''Error uploading resume:'' err])"
  by (simp add: handleUploadResume_def)

lemma handleApplyToJob_rejected:
  "handleApplyToJob API c j r l (Inl err) g st =
     (st, [Sent (axios_post c (API @ ''/applications'') (ApplicationBody j r l) Map.empty),
           ConsoleError ''Error applying to job:'' err])"
  by (simp add: handleApplyToJob_def)

lemma handleCreateJob_rejected:
  "handleCreateJob API c jd (Inl err) g st =
     (st, [Sent (axios_post c (API @ ''/jobs'') (JobBody jd) Map.empty),
           ConsoleError ''Error creating job:'' err])"
  by (simp add: handleCreateJob_def)

lemma handleUploadResume_fulfilled:
  "handleUploadResume API c f (Inr u) g st =
     ((fst (fetchResumes API c g st))\<lparr> showUploadModal := False \<rparr>,
      Sent (axios_post c (API @ ''/resumes/upload'') (FormData f)
              [''Content-Type'' \<mapsto> ''multipart/form-data''])
      # snd (fetchResumes API c g st))"
  by (simp add: handleUploadResume_def case_prod_beta)

lemma handleApplyToJob_fulfilled:
  "handleApplyToJob API c j r l (Inr u) g st =
     ((fst (fetchApplications API c g st))\<lparr> showApplicationModal := False \<rparr>,
      Sent (axios_post c (API @ ''/applications'') (ApplicationBody j r l) Map.empty)
      # snd (fetchApplications API c g st))"
  by (simp add: handleApplyToJob_def case_prod_beta)

lemma handleCreateJob_fulfilled:
  "handleCreateJob API c jd (Inr u) g st =
     ((fst (Employer_fetchJobs API c g st))\<lparr> showJobModal := False \<rparr>,
      Sent (axios_post c (API @ ''/jobs'') (JobBody jd) Map.empty)
      # snd (Employer_fetchJobs API c g st))"
  by (simp add: handleCreateJob_def case_prod_beta)

lemma post_is_not_get: "axios_post c u b cfg \<noteq> axios_get c' u'"
  by (simp add: axios_post_def axios_get_def)

lemma get_is_not_post: "axios_get c' u' \<noteq> axios_post c u b cfg"
  by (simp add: axios_post_def axios_get_def)

lemma upload_refetch_membership:
  "(Sent (axios_get c (API @ ''/resumes'')) \<in> set (snd (handleUploadResume API c f p g st))) = (p = Inr ())"
  by (cases p; cases g) (simp_all add: handleUploadResume_def fetchResumes_def get_is_not_post)

lemma apply_refetch_membership:
  "(Sent (axios_get c (API @ ''/applications'')) \<in> set (snd (handleApplyToJob API c j r l p ga cst))) = (p = Inr ())"
  by (cases p; cases ga) (simp_all add: handleApplyToJob_def fetchApplications_def get_is_not_post)

lemma create_refetch_membership:
  "(Sent (axios_get c (API @ ''/jobs'')) \<in> set (snd (handleCreateJob API c jd p gj est))) = (p = Inr ())"
  by (cases p; cases gj) (simp_all add: handleCreateJob_def Employer_fetchJobs_def get_is_not_post)

lemma mutation_first:
  "hd (snd (handleUploadResume API c f p g st)) =
     Sent (axios_post c (API @ ''/resumes/upload'') (FormData f) [''Content-Type'' \<mapsto> ''multipart/form-data''])"
  "hd (snd (handleApplyToJob API c j r l p ga cst)) =
     Sent (axios_post c (API @ ''/applications'') (ApplicationBody j r l) Map.empty)"
  "hd (snd (handleCreateJob API c jd p gj est)) =
     Sent (axios_post c (API @ ''/jobs'') (JobBody jd) Map.empty)"
  by (cases p; simp add: handleUploadResume_def handleApplyToJob_def handleCreateJob_def case_prod_beta)+

text \<open>
  C7. Each mutation handler puts its POST on the wire first. When the POST is rejected
  the handler sends nothing else, logs the error and returns the dashboard state as it
  was, so the modal stays as it is and no list changes. When the POST is fulfilled the
  handler then sends the GET of the affected collection (resumes after an upload,
  applications after an application, jobs after a job creation) and closes the modal;
  the list becomes the collection the GET returns, or stays as it was when the GET is
  rejected. The GET is among the events exactly when the POST was fulfilled.
\<close>

theorem refetch_after_mutation:
  "handleUploadResume API c f (Inl err) g st =
     (st, [Sent (axios_post c (API @ ''/resumes/upload'') (FormData f)
                   [''Content-Type'' \<mapsto> ''multipart/form-data'']),
           ConsoleError ''Error uploading resume:'' err])
   \<and> handleUploadResume API c f (Inr u) (Inr rs) st =
     (st\<lparr> resumes := rs, showUploadModal := False \<rparr>,
      [Sent (axios_post c (API @ ''/resumes/upload'') (FormData f)
               [''Content-Type'' \<mapsto> ''multipart/form-data'']),
       Sent (axios_get c (API @ ''/resumes''))])
   \<and> handleUploadResume API c f (Inr u) (Inl err) st =
     (st\<lparr> showUploadModal := False \<rparr>,
      [Sent (axios_post c (API @ ''/resumes/upload'') (FormData f)
               [''Content-Type'' \<mapsto> ''multipart/form-data'']),
       Sent (axios_get c (API @ ''/resumes'')),
       ConsoleError ''Error fetching resumes:'' err])
   \<and> handleApplyToJob API c j r l (Inl err) ga cst =
     (cst, [Sent (axios_post c (API @ ''/applications'') (ApplicationBody j r l) Map.empty),
           ConsoleError ''Error applying to job:'' err])
   \<and> handleApplyToJob API c j r l (Inr u) (Inr as) cst =
     (cst\<lparr> applications := as, showApplicationModal := False \<rparr>,
      [Sent (axios_post c (API @ ''/applications'') (ApplicationBody j r l) Map.empty),
       Sent (axios_get c (API @ ''/applications''))])
   \<and> handleApplyToJob API c j r l (Inr u) (Inl err) cst =
     (cst\<lparr> showApplicationModal := False \<rparr>,
      [Sent (axios_post c (API @ ''/applications'') (ApplicationBody j r l) Map.empty),
       Sent (axios_get c (API @ ''/applications'')),
       ConsoleError ''Error fetching applications:'' err])
   \<and> handleCreateJob API c jd (Inl err) gj est =
     (est, [Sent (axios_post c (API @ ''/jobs'') (JobBody jd) Map.empty),
           ConsoleError ''Error creating job:'' err])
   \<and> handleCreateJob API c jd (Inr u) (Inr js) est =
     (est\<lparr> employer_jobs := js, showJobModal := False \<rparr>,
      [Sent (axios_post c (API @ ''/jobs'') (JobBody jd) Map.empty),
       Sent (axios_get c (API @ ''/jobs''))])
   \<and> handleCreateJob API c jd (Inr u) (Inl err) est =
     (est\<lparr> showJobModal := False \<rparr>,
      [Sent (axios_post c (API @ ''/jobs'') (JobBody jd) Map.empty),
       Sent (axios_get c (API @ ''/jobs'')),
       ConsoleError ''Error fetching jobs:'' err])
   \<and> hd (snd (handleUploadResume API c f p g st)) =
       Sent (axios_post c (API @ ''/resumes/upload'') (FormData f)
               [''Content-Type'' \<mapsto> ''multipart/form-data''])
   \<and> (Sent (axios_get c (API @ ''/resumes'')) \<in> set (snd (handleUploadResume API c f p g st)))
       = (p = Inr ())
   \<and> hd (snd (handleApplyToJob API c j r l p ga cst)) =
       Sent (axios_post c (API @ ''/applications'') (ApplicationBody j r l) Map.empty)
   \<and> (Sent (axios_get c (API @ ''/applications'')) \<in> set (snd (handleApplyToJob API c j r l p ga cst)))
       = (p = Inr ())
   \<and> hd (snd (handleCreateJob API c jd p gj est)) =
       Sent (axios_post c (API @ ''/jobs'') (JobBody jd) Map.empty)
   \<and> (Sent (axios_get c (API @ ''/jobs'')) \<in> set (snd (handleCreateJob API c jd p gj est)))
       = (p = Inr ())"
  by (simp add: mutation_first upload_refetch_membership apply_refetch_membership
      create_refetch_membership handleUploadResume_rejected handleApplyToJob_rejected handleCreateJob_rejected
      handleUploadResume_fulfilled handleApplyToJob_fulfilled handleCreateJob_fulfilled
      fetchResumes_rejected fetchResumes_fulfilled fetchApplications_rejected
      fetchApplications_fulfilled Employer_fetchJobs_rejected Employer_fetchJobs_fulfilled)












lemma submission_allowed_iff:
  "submission_allowed v f =
     (reg_full_name f \<noteq> [] \<and> email f \<noteq> [] \<and> v (email f) \<and> password f \<noteq> []
      \<and> (reg_role f = ''employer'' \<longrightarrow> company_name f \<noteq> []))"
  by (auto simp: submission_allowed_def Register_inputs_def control_valid_def)

text \<open>
  C6. With the role \<^verbatim>\<open>employer\<close> the company-name control is rendered and required:
  the form can be submitted exactly when name, e-mail and password pass and the company
  name is non-empty. With the role \<^verbatim>\<open>candidate\<close> the control is not rendered: the
  company name plays no part, and an empty one does not hold the submission back. A
  form that may not be submitted never reaches \<^verbatim>\<open>handleSubmit\<close>.
\<close>

theorem employer_requires_company_name:
  "(reg_role f = ''employer'' \<longrightarrow>
      submission_allowed v f =
        (reg_full_name f \<noteq> [] \<and> email f \<noteq> [] \<and> v (email f) \<and> password f \<noteq> []
         \<and> company_name f \<noteq> []))
   \<and> (reg_role f = ''candidate'' \<longrightarrow>
      submission_allowed v f =
        (reg_full_name f \<noteq> [] \<and> email f \<noteq> [] \<and> v (email f) \<and> password f \<noteq> []))
   \<and> (reg_role f = ''candidate'' \<longrightarrow>
      submission_allowed v (f\<lparr> company_name := [] \<rparr>) = submission_allowed v f)
   \<and> Register_submit v API resp st s =
       (if submission_allowed v (formData st) then Some (Register_handleSubmit API resp st s) else None)"
  by (simp add: submission_allowed_iff Register_submit_def)

theorem employer_requires_company_name_witness:
  "\<not> submission_allowed simple_email employer_form
   \<and> submission_allowed simple_email (employer_form\<lparr> company_name := ''Acme'' \<rparr>)
   \<and> submission_allowed simple_email sample_form
   \<and> company_name sample_form = []
   \<and> Register_submit simple_email ''/api'' (Inr alice_token)
        (Register_initial\<lparr> formData := employer_form \<rparr>) (page_load Map.empty) = None"
  using employer_requires_company_name [where f = employer_form and v = simple_email
      and st = "Register_initial\<lparr> formData := employer_form \<rparr>" and API = "''/api''"
      and resp = "Inr alice_token" and s = "page_load Map.empty"]
    employer_requires_company_name [where f = "employer_form\<lparr> company_name := ''Acme'' \<rparr>"
      and v = simple_email]
    employer_requires_company_name [where f = sample_form and v = simple_email]
  by (simp add: employer_form_def sample_form_def simple_email_def Register_initial_def)

text \<open>
  C8. From the page load until the restore has settled the guard shows the loading
  screen; the effect always ends with loading over. After that a session without a
  user gets the login screen and a session with a user gets the dashboard of the
  user's role: the candidate dashboard exactly for \<^verbatim>\<open>candidate\<close>, the employer
  dashboard exactly for \<^verbatim>\<open>employer\<close>, the admin dashboard for every other role.
\<close>

theorem guard_and_role_dispatch:
  "ProtectedRoute (page_load storage) = LoadingScreen
   \<and> ProtectedRoute (attach_token t (page_load storage)) = LoadingScreen
   \<and> (loading s \<longrightarrow> ProtectedRoute s = LoadingScreen)
   \<and> \<not> loading (fst (AuthProvider_effect API resp s))
   \<and> (\<not> loading s \<and> user s = None \<longrightarrow> ProtectedRoute s = LoginScreen)
   \<and> (\<not> loading s \<and> user s = Some u \<longrightarrow> ProtectedRoute s = Page (Dashboard u))
   \<and> (Dashboard u = CandidateDashboard) = (role u = ''candidate'')
   \<and> (Dashboard u = EmployerDashboard) = (role u = ''employer'')
   \<and> (Dashboard u = AdminDashboard) = (role u \<noteq> ''candidate'' \<and> role u \<noteq> ''employer'')"
  by (cases resp)
     (auto simp: ProtectedRoute_def page_load_def attach_token_def Dashboard_def
        AuthProvider_effect_def fetchUser_def split: option.splits)

theorem guard_and_role_dispatch_witness:
  "ProtectedRoute (page_load [''token'' \<mapsto> ''t1'']) = LoadingScreen
   \<and> ProtectedRoute alice_session = Page CandidateDashboard
   \<and> ProtectedRoute (logout alice_session) = LoginScreen"
  using guard_and_role_dispatch [where s = "page_load [''token'' \<mapsto> ''t1'']"
      and storage = "[''token'' \<mapsto> ''t1'']"]
    guard_and_role_dispatch [where s = alice_session and u = alice]
    guard_and_role_dispatch [where s = "logout alice_session"]
  by (simp add: alice_session_def alice_token_def alice_def login_def AuthProvider_effect_def
      page_load_def logout_def)

lemma handleApplyToJob_posts:
  "filter (\<lambda>r. http_method r = ''POST'') (sent_requests (snd (handleApplyToJob API c j r l p g st)))
     = [axios_post c (API @ ''/applications'') (ApplicationBody j r l) Map.empty]"
  by (cases p; cases g)
     (simp_all add: handleApplyToJob_def fetchApplications_def
        axios_post_def axios_get_def)

text \<open>
  C9. Submitting the application modal sends the create-application POST, with the
  job's id, the selected resume and the cover letter as typed, exactly when the
  selected resume is non-empty; with none selected it does nothing at all. The cover
  letter is unconstrained: the statement holds for every value of it, the empty one
  included.
\<close>

theorem application_needs_resume:
  "filter (\<lambda>r. http_method r = ''POST'')
     (sent_requests (snd (ApplicationModal_handleSubmit API c job m p g st)))
     = (if selectedResume m \<noteq> []
        then [axios_post c (API @ ''/applications'')
                (ApplicationBody (job_ident job) (selectedResume m) (coverLetter m)) Map.empty]
        else [])
   \<and> (selectedResume m = [] \<longrightarrow> ApplicationModal_handleSubmit API c job m p g st = (st, []))
   \<and> (selectedResume m \<noteq> [] \<longrightarrow>
        ApplicationModal_handleSubmit API c job m p g st =
          handleApplyToJob API c (job_ident job) (selectedResume m) (coverLetter m) p g st)"
  by (simp add: ApplicationModal_handleSubmit_def handleApplyToJob_posts)

theorem application_needs_resume_witness:
  "ApplicationModal_handleSubmit ''/api'' (headers_common alice_session) sample_job
     ApplicationModal_initial (Inr ()) (Inr []) Candidate_initial = (Candidate_initial, [])
   \<and> payload (hd (sent_requests (snd (ApplicationModal_handleSubmit ''/api'' (headers_common alice_session)
        sample_job (ApplicationModal_initial\<lparr> selectedResume := ''r1'' \<rparr>) (Inr ()) (Inr [])
        Candidate_initial)))) = ApplicationBody ''j1'' ''r1'' []"
  using application_needs_resume [where m = ApplicationModal_initial and API = "''/api''"
      and c = "headers_common alice_session" and job = sample_job and p = "Inr ()"
      and g = "Inr []" and st = Candidate_initial]
    application_needs_resume [where m = "ApplicationModal_initial\<lparr> selectedResume := ''r1'' \<rparr>"
      and API = "''/api''" and c = "headers_common alice_session" and job = sample_job
      and p = "Inr ()" and g = "Inr []" and st = Candidate_initial]
  by (simp add: ApplicationModal_initial_def sample_job_def handleApplyToJob_def
      fetchApplications_def axios_post_def)


lemma trim_empty_iff: "(trim s = []) = list_all isWhiteSpace s"
proof
  assume "trim s = []"
  then have "\<forall>c \<in> set (dropWhile isWhiteSpace s). isWhiteSpace c"
    by (simp add: trim_def dropWhile_eq_Nil_conv)
  moreover have "dropWhile isWhiteSpace s \<noteq> [] \<Longrightarrow> \<not> isWhiteSpace (hd (dropWhile isWhiteSpace s))"
    by (rule hd_dropWhile)
  ultimately have "dropWhile isWhiteSpace s = []"
    by (cases "dropWhile isWhiteSpace s") auto
  then show "list_all isWhiteSpace s"
    by (simp add: dropWhile_eq_Nil_conv list_all_iff)
next
  assume "list_all isWhiteSpace s"
  then have "dropWhile isWhiteSpace s = []"
    by (simp add: dropWhile_eq_Nil_conv list_all_iff)
  then show "trim s = []" by (simp only: trim_def rev.simps dropWhile.simps)
qed

lemma handleCreateJob_posts:
  "filter (\<lambda>r. http_method r = ''POST'') (sent_requests (snd (handleCreateJob API c jd p g st)))
     = [axios_post c (API @ ''/jobs'') (JobBody jd) Map.empty]"
  by (cases p; cases g)
     (simp_all add: handleCreateJob_def Employer_fetchJobs_def
        axios_post_def axios_get_def)

lemma radix_digit_10: "radix_digit 10 c = decimal_digit c"
  by (simp add: radix_digit_def digit_of_def decimal_digit_def Let_def) arith

lemma radix_digit_16: "radix_digit 16 c = hex_digit c"
  by (simp add: radix_digit_def digit_of_def decimal_digit_def hex_digit_def Let_def) arith

lemma digit_of_decimal: "decimal_digit c \<Longrightarrow> digit_of c = Some (of_char c - 48)"
  by (simp add: digit_of_def decimal_digit_def)

lemma digit_of_hex: "hex_digit c \<Longrightarrow> digit_of c = Some (hex_digit_value c)"
  by (auto simp: digit_of_def decimal_digit_def hex_digit_def hex_digit_value_def Let_def)

lemma digits_value_snoc:
  "digits_value R (ds @ [c]) =
     digits_value R ds * int R + int (case digit_of c of None \<Rightarrow> 0 | Some d \<Rightarrow> d)"
  by (simp add: digits_value_def)

lemma positional_snoc:
  "(\<Sum>i<length (ds @ [c]). f ((ds @ [c]) ! i) * b ^ (length (ds @ [c]) - Suc i))
     = (\<Sum>i<length ds. f (ds ! i) * b ^ (length ds - Suc i)) * b + (f c :: nat)"
proof -
  have "(\<Sum>i<length ds. f ((ds @ [c]) ! i) * b ^ (Suc (length ds) - Suc i))
      = (\<Sum>i<length ds. (f (ds ! i) * b ^ (length ds - Suc i)) * b)"
  proof (rule sum.cong)
    fix i assume "i \<in> {..<length ds}"
    then have i: "i < length ds" by simp
    then have "Suc (length ds) - Suc i = Suc (length ds - Suc i)" by arith
    with i show "f ((ds @ [c]) ! i) * b ^ (Suc (length ds) - Suc i)
        = (f (ds ! i) * b ^ (length ds - Suc i)) * b"
      by (simp add: nth_append)
  qed simp
  then show ?thesis
    by (simp add: sum_distrib_right)
qed

lemma decimal_value_snoc: "decimal_value (ds @ [c]) = decimal_value ds * 10 + (of_char c - 48)"
  unfolding decimal_value_def by (rule positional_snoc)

lemma hex_value_snoc: "hex_value (hs @ [c]) = hex_value hs * 16 + hex_digit_value c"
  unfolding hex_value_def by (rule positional_snoc)

lemma digits_value_decimal:
  "list_all decimal_digit ds \<Longrightarrow> digits_value 10 ds = int (decimal_value ds)"
proof (induction ds rule: rev_induct)
  case Nil
  show ?case by (simp add: digits_value_def decimal_value_def)
next
  case (snoc c ds)
  then show ?case
    by (simp add: digits_value_snoc decimal_value_snoc digit_of_decimal)
qed

lemma digits_value_hex:
  "list_all hex_digit hs \<Longrightarrow> digits_value 16 hs = int (hex_value hs)"
proof (induction hs rule: rev_induct)
  case Nil
  show ?case by (simp add: digits_value_def hex_value_def)
next
  case (snoc c hs)
  then show ?case
    by (simp add: digits_value_snoc hex_value_snoc digit_of_hex)
qed

lemma to_number_exact:
  "\<bar>n\<bar> \<le> 2 ^ 53 \<Longrightarrow> to_number n = Num n"
proof -
  assume "\<bar>n\<bar> \<le> 2 ^ 53"
  then have "nat \<bar>n\<bar> \<le> 2 ^ 53" by (simp add: nat_le_iff)
  then show ?thesis by (simp add: to_number_def round_to_double_def)
qed


lemma dropWhile_skip:
  "list_all P ws \<Longrightarrow> t = [] \<or> \<not> P (hd t) \<Longrightarrow> dropWhile P (ws @ t) = t"
  by (cases t) (auto simp: list_all_iff dropWhile_append2)

lemma takeWhile_run:
  "list_all P ds \<Longrightarrow> rest = [] \<or> \<not> P (hd rest) \<Longrightarrow> takeWhile P (ds @ rest) = ds"
  by (cases rest) (auto simp: list_all_iff takeWhile_append2)

lemma radix_digit_10_fun: "radix_digit 10 = decimal_digit"
  by (rule ext) (rule radix_digit_10)

lemma radix_digit_16_fun: "radix_digit 16 = hex_digit"
  by (rule ext) (rule radix_digit_16)

lemma decimal_digit_plain:
  "decimal_digit c \<Longrightarrow> \<not> isWhiteSpace c \<and> c \<noteq> CHR ''-'' \<and> c \<noteq> CHR ''+''
     \<and> c \<noteq> CHR ''x'' \<and> c \<noteq> CHR ''X''"
  by (auto simp: decimal_digit_def isWhiteSpace_def)

lemma sign_plain: "\<not> isWhiteSpace CHR ''-''" "\<not> isWhiteSpace CHR ''+''"
  by (simp_all add: isWhiteSpace_def)

lemma parseInt_signed:
  assumes t: "t = [] \<or> (\<not> isWhiteSpace (hd t) \<and> hd t \<noteq> CHR ''-'' \<and> hd t \<noteq> CHR ''+'')"
    and ws: "list_all isWhiteSpace ws"
    and sg: "sg = [] \<or> sg = ''+'' \<or> sg = ''-''"
  shows "parseInt (ws @ sg @ t) =
     (let R = (if take 2 t = ''0x'' \<or> take 2 t = ''0X'' then 16 else 10 :: nat);
          Z = takeWhile (radix_digit R) (if R = 16 then drop 2 t else t);
          mathInt = digits_value R Z
      in if Z = [] then NaN
         else if mathInt = 0 then (if sg = ''-'' then NegZero else Num 0)
         else to_number ((if sg = ''-'' then - 1 else 1) * mathInt))"
proof -
  from t sg have "sg @ t = [] \<or> \<not> isWhiteSpace (hd (sg @ t))"
    by (auto simp: sign_plain)
  with ws have S: "dropWhile isWhiteSpace (ws @ sg @ t) = sg @ t"
    by (rule dropWhile_skip)
  from sg consider (none) "sg = []" | (plus) "sg = ''+''" | (minus) "sg = ''-''"
    by blast
  then show ?thesis
  proof cases
    case none
    from t have "take 1 t \<noteq> ''-''" "take 1 t \<noteq> ''+''"
      by (cases t; simp)+
    with none show ?thesis
      unfolding parseInt_def S by (simp add: Let_def)
  next
    case plus
    then show ?thesis
      unfolding parseInt_def S by (simp add: Let_def)
  next
    case minus
    then show ?thesis
      unfolding parseInt_def S by (simp add: Let_def)
  qed
qed

lemma decimal_no_prefix:
  assumes ne: "ds \<noteq> []" and ds: "list_all decimal_digit ds"
    and nohex: "\<not> (ds = ''0'' \<and> rest \<noteq> [] \<and> (hd rest = CHR ''x'' \<or> hd rest = CHR ''X''))"
  shows "take 2 (ds @ rest) \<noteq> ''0x'' \<and> take 2 (ds @ rest) \<noteq> ''0X''"
proof (cases ds)
  case Nil
  with ne show ?thesis by simp
next
  case (Cons c ds')
  show ?thesis
  proof (cases ds')
    case Nil
    with Cons nohex show ?thesis by (cases rest) auto
  next
    case (Cons c' ds'')
    with \<open>ds = c # ds'\<close> ds have "decimal_digit c'" by simp
    then have "c' \<noteq> CHR ''x'' \<and> c' \<noteq> CHR ''X''" by (simp add: decimal_digit_plain)
    with Cons \<open>ds = c # ds'\<close> show ?thesis by simp
  qed
qed

lemma parseInt_decimal:
  assumes ws: "list_all isWhiteSpace ws"
    and sg: "sg = [] \<or> sg = ''+'' \<or> sg = ''-''"
    and ne: "ds \<noteq> []" and ds: "list_all decimal_digit ds"
    and rest: "rest = [] \<or> \<not> decimal_digit (hd rest)"
    and nohex: "\<not> (ds = ''0'' \<and> rest \<noteq> [] \<and> (hd rest = CHR ''x'' \<or> hd rest = CHR ''X''))"
  shows "parseInt (ws @ sg @ ds @ rest) =
     (if decimal_value ds = 0 then (if sg = ''-'' then NegZero else Num 0)
      else to_number ((if sg = ''-'' then - 1 else 1) * int (decimal_value ds)))"
proof -
  from ne ds have "decimal_digit (hd (ds @ rest))" by (cases ds) auto
  then have t: "ds @ rest = [] \<or> (\<not> isWhiteSpace (hd (ds @ rest)) \<and> hd (ds @ rest) \<noteq> CHR ''-''
      \<and> hd (ds @ rest) \<noteq> CHR ''+'')"
    by (simp add: decimal_digit_plain)
  have pre: "take 2 (ds @ rest) \<noteq> ''0x'' \<and> take 2 (ds @ rest) \<noteq> ''0X''"
    using ne ds nohex by (rule decimal_no_prefix)
  have Z: "takeWhile decimal_digit (ds @ rest) = ds"
    using ds rest by (rule takeWhile_run)
  have v: "digits_value 10 ds = int (decimal_value ds)"
    using ds by (rule digits_value_decimal)
  show ?thesis
    unfolding parseInt_signed [OF t ws sg]
    using pre ne by (simp add: Let_def radix_digit_10_fun Z v)
qed


lemma parseInt_hex:
  assumes ws: "list_all isWhiteSpace ws"
    and sg: "sg = [] \<or> sg = ''+'' \<or> sg = ''-''"
    and pre: "pre = ''0x'' \<or> pre = ''0X''"
    and hs: "list_all hex_digit hs"
    and rest: "rest = [] \<or> \<not> hex_digit (hd rest)"
  shows "parseInt (ws @ sg @ pre @ hs @ rest) =
     (if hs = [] then NaN
      else if hex_value hs = 0 then (if sg = ''-'' then NegZero else Num 0)
      else to_number ((if sg = ''-'' then - 1 else 1) * int (hex_value hs)))"
proof -
  from pre have t: "pre @ hs @ rest = [] \<or> (\<not> isWhiteSpace (hd (pre @ hs @ rest))
      \<and> hd (pre @ hs @ rest) \<noteq> CHR ''-'' \<and> hd (pre @ hs @ rest) \<noteq> CHR ''+'')"
    by (auto simp: isWhiteSpace_def)
  from pre have p: "take 2 (pre @ hs @ rest) = pre" "drop 2 (pre @ hs @ rest) = hs @ rest"
    by auto
  have Z: "takeWhile hex_digit (hs @ rest) = hs"
    using hs rest by (rule takeWhile_run)
  have v: "digits_value 16 hs = int (hex_value hs)"
    using hs by (rule digits_value_hex)
  show ?thesis
    unfolding parseInt_signed [OF t ws sg] p
    using pre by (auto simp: Let_def radix_digit_16_fun Z v)
qed

lemma parseInt_no_digits:
  assumes ws: "list_all isWhiteSpace ws"
    and sg: "sg = [] \<or> sg = ''+'' \<or> sg = ''-''"
    and t: "t = [] \<or> (\<not> isWhiteSpace (hd t) \<and> hd t \<noteq> CHR ''-'' \<and> hd t \<noteq> CHR ''+''
      \<and> \<not> decimal_digit (hd t))"
  shows "parseInt (ws @ sg @ t) = NaN"
proof -
  from t have t': "t = [] \<or> (\<not> isWhiteSpace (hd t) \<and> hd t \<noteq> CHR ''-'' \<and> hd t \<noteq> CHR ''+'')"
    by blast
  from t have pre: "take 2 t \<noteq> ''0x'' \<and> take 2 t \<noteq> ''0X''"
    by (cases t) (auto simp: decimal_digit_def)
  from t have Z: "takeWhile decimal_digit t = []"
    by (cases t) auto
  show ?thesis
    unfolding parseInt_signed [OF t' ws sg]
    using pre by (simp add: Let_def radix_digit_10_fun Z)
qed

lemma parseInt_safe:
  assumes "list_all isWhiteSpace ws"
    and "sg = [] \<or> sg = ''+'' \<or> sg = ''-''"
    and "ds \<noteq> []" and "list_all decimal_digit ds"
    and "rest = [] \<or> \<not> decimal_digit (hd rest)"
    and "\<not> (ds = ''0'' \<and> rest \<noteq> [] \<and> (hd rest = CHR ''x'' \<or> hd rest = CHR ''X''))"
    and safe: "decimal_value ds \<le> 2 ^ 53"
  shows "parseInt (ws @ sg @ ds @ rest) =
     (if sg = ''-'' then (if decimal_value ds = 0 then NegZero else Num (- int (decimal_value ds)))
      else Num (int (decimal_value ds)))"
proof -
  from safe have "int (decimal_value ds) \<le> 2 ^ 53"
    by (metis of_nat_le_iff of_nat_numeral of_nat_power)
  then have "to_number (int (decimal_value ds)) = Num (int (decimal_value ds))"
    "to_number (- int (decimal_value ds)) = Num (- int (decimal_value ds))"
    by (simp_all add: to_number_exact)
  with parseInt_decimal [OF assms(1-6)] show ?thesis by simp
qed

lemma bit_length_bounds:
  "0 < n \<Longrightarrow> 2 ^ (bit_length n - 1) \<le> n \<and> n < 2 ^ bit_length n"
proof (induction n rule: bit_length.induct)
  case (1 n)
  show ?case
  proof (cases "n div 2 = 0")
    case True
    with "1.prems" have "n = 1" by arith
    then show ?thesis by (simp add: bit_length.simps)
  next
    case False
    then have m: "0 < n div 2" by simp
    from "1.prems" have bl: "bit_length n = Suc (bit_length (n div 2))"
      by (subst bit_length.simps) simp
    from "1.IH" "1.prems" m
    have ih: "2 ^ (bit_length (n div 2) - 1) \<le> n div 2" "n div 2 < 2 ^ bit_length (n div 2)"
      by simp_all
    from m have pos: "0 < bit_length (n div 2)"
      by (subst bit_length.simps) simp
    then have "(2::nat) ^ bit_length (n div 2) = 2 * 2 ^ (bit_length (n div 2) - 1)"
      by (cases "bit_length (n div 2)") simp_all
    with ih(1) have lo: "2 ^ bit_length (n div 2) \<le> n" by arith
    from ih(2) have hi: "n < 2 * 2 ^ bit_length (n div 2)" by arith
    from lo hi show ?thesis by (simp add: bl)
  qed
qed

lemma round_to_53_bits_nearest:
  assumes big: "2 ^ 53 < a" and v: "v = round_to_53_bits a"
  shows "\<exists>e q. v = q * 2 ^ e \<and> 2 ^ 52 \<le> q \<and> q \<le> 2 ^ 53
           \<and> 2 * \<bar>int v - int a\<bar> \<le> 2 ^ e
           \<and> (2 * \<bar>int v - int a\<bar> = 2 ^ e \<longrightarrow> even q)"
proof -
  define e where "e = bit_length a - 53"
  define q where "q = a div 2 ^ e"
  define r where "r = a mod 2 ^ e"
  define h where "h = (2::nat) ^ (e - 1)"
  define q' where "q' = (if h < r \<or> (r = h \<and> odd q) then q + 1 else q)"
  from big have pos: "0 < a" by simp
  from bit_length_bounds [OF pos]
  have lo: "2 ^ (bit_length a - 1) \<le> a" and hi: "a < 2 ^ bit_length a" by simp_all
  from big hi have "(2::nat) ^ 53 < 2 ^ bit_length a" by simp
  then have L: "53 < bit_length a"
    using power_less_imp_less_exp [of "2::nat" 53 "bit_length a"] by simp
  then have e1: "1 \<le> e" and Le: "bit_length a = e + 53" by (simp_all add: e_def)
  from e1 have two_h: "(2::nat) ^ e = 2 * h"
    by (cases e) (simp_all add: h_def)
  have a_eq: "a = q * 2 ^ e + r" unfolding q_def r_def by (simp only: div_mult_mod_eq)
  have r_lt: "r < 2 ^ e" by (simp add: r_def)
  have "(2::nat) ^ (53 + e) = 2 ^ 53 * 2 ^ e" by (rule power_add)
  moreover from hi Le have "a < 2 ^ (53 + e)" by (simp only: add.commute)
  ultimately have "a < 2 ^ 53 * 2 ^ e" by (simp only:)
  then have q_hi: "q < 2 ^ 53" by (simp add: q_def less_mult_imp_div_less)
  have "(2::nat) ^ (52 + e) = 2 ^ 52 * 2 ^ e" by (rule power_add)
  moreover from lo Le have "2 ^ (52 + e) \<le> a" by simp
  ultimately have "2 ^ 52 * 2 ^ e \<le> a" by (simp only:)
  then have q_lo: "2 ^ 52 \<le> q"
    by (simp add: q_def less_eq_div_iff_mult_less_eq)
  from v have v_eq: "v = q' * 2 ^ e"
    unfolding q'_def h_def r_def q_def e_def
    by (simp add: round_to_53_bits_def Let_def)
  have q'_bounds: "2 ^ 52 \<le> q'" "q' \<le> 2 ^ 53"
    using q_lo q_hi by (simp_all add: q'_def)
  from r_lt two_h have r_lt': "r < 2 * h" by simp
  have pe: "(2::int) ^ e = 2 * int h" using two_h by (metis of_nat_mult of_nat_numeral of_nat_power)
  have near: "2 * \<bar>int v - int a\<bar> \<le> 2 ^ e \<and> (2 * \<bar>int v - int a\<bar> = 2 ^ e \<longrightarrow> even q')"
  proof (cases "h < r \<or> (r = h \<and> odd q)")
    case True
    then have q1: "q' = q + 1" by (simp add: q'_def)
    have "int v = int q * 2 ^ e + 2 ^ e"
      by (simp add: v_eq q1 algebra_simps)
    moreover have "int a = int q * 2 ^ e + int r"
      by (subst a_eq) simp
    ultimately have d: "int v - int a = 2 * int h - int r"
      by (simp add: pe)
    from True have hr: "h \<le> r" by auto
    from r_lt' have "0 \<le> 2 * int h - int r" by linarith
    with d have ab: "\<bar>int v - int a\<bar> = 2 * int h - int r" by simp
    from hr have "int h \<le> int r" "int r \<le> int r" by simp_all
    then have le: "2 * \<bar>int v - int a\<bar> \<le> 2 * int h" unfolding ab by simp
    have tie: "2 * \<bar>int v - int a\<bar> = 2 * int h \<longrightarrow> even q'"
    proof
      assume "2 * \<bar>int v - int a\<bar> = 2 * int h"
      then have "int r = int h" unfolding ab by simp
      then have "r = h" by simp
      with True have "odd q" by auto
      with q1 show "even q'" by simp
    qed
    from le tie show ?thesis by (simp add: pe)
  next
    case False
    then have q0: "q' = q" by (simp add: q'_def)
    have "int v = int q * 2 ^ e"
      by (simp add: v_eq q0)
    moreover have "int a = int q * 2 ^ e + int r"
      by (subst a_eq) simp
    ultimately have d: "int v - int a = - int r"
      by simp
    from False have hr: "r \<le> h" by auto
    from d have ab: "\<bar>int v - int a\<bar> = int r" by simp
    from hr have "int r \<le> int h" by simp
    then have le: "2 * \<bar>int v - int a\<bar> \<le> 2 * int h" unfolding ab by simp
    have tie: "2 * \<bar>int v - int a\<bar> = 2 * int h \<longrightarrow> even q'"
    proof
      assume "2 * \<bar>int v - int a\<bar> = 2 * int h"
      then have "int r = int h" unfolding ab by simp
      then have "r = h" by simp
      with False have "even q" by auto
      with q0 show "even q'" by simp
    qed
    from le tie show ?thesis by (simp add: pe)
  qed
  from v_eq q'_bounds near show ?thesis by blast
qed

lemma to_number_rounded:
  "2 ^ 53 < \<bar>n\<bar> \<Longrightarrow>
     to_number n =
       (if 2 ^ 1024 \<le> round_to_53_bits (nat \<bar>n\<bar>)
        then (if n < 0 then NegInfinity else Infinity)
        else Num (if n < 0 then - int (round_to_53_bits (nat \<bar>n\<bar>))
                  else int (round_to_53_bits (nat \<bar>n\<bar>))))"
proof -
  assume "2 ^ 53 < \<bar>n\<bar>"
  then have "\<not> nat \<bar>n\<bar> \<le> 2 ^ 53" by (simp add: nat_le_iff)
  then show ?thesis by (simp add: to_number_def round_to_double_def)
qed

lemma formatted_fields:
  "f_salary_min (formatJobData jd) =
       (if salary_min jd = [] then None else Some (parseInt (salary_min jd)))"
  "f_salary_max (formatJobData jd) =
       (if salary_max jd = [] then None else Some (parseInt (salary_max jd)))"
  "f_requirements (formatJobData jd) =
       filter (\<lambda>req. \<not> list_all isWhiteSpace req) (requirements jd)"
  "f_title (formatJobData jd) = title jd"
  "f_company (formatJobData jd) = company jd"
  "f_location (formatJobData jd) = location jd"
  "f_description (formatJobData jd) = description jd"
  "f_job_type (formatJobData jd) = job_type jd"
  by (simp_all add: formatJobData_def trim_empty_iff)

lemma JobModal_posts:
  "filter (\<lambda>r. http_method r = ''POST'') (sent_requests (snd (JobModal_handleSubmit API c jd p g st)))
     = [axios_post c (API @ ''/jobs'') (JobBody (formatJobData jd)) Map.empty]"
  by (simp add: JobModal_handleSubmit_def handleCreateJob_posts)

text \<open>
  C10. Submitting the job modal posts the formatted form to the create-job endpoint.
  In the payload each salary bound is \<^verbatim>\<open>null\<close> when its field is empty and
  \<^verbatim>\<open>parseInt\<close> of the field otherwise; the requirements are the form's entries
  without those that consist of white space only (the empty entry among them), in
  their order; title, company, location, description and job type are the form's.

  The parse is the integer parse: after white space and an optional sign, a run of
  decimal digits followed by anything that is no digit parses to the number value of
  the run's positional value, signed, which up to \<open>2 ^ 53\<close> is that integer itself;
  a run of hexadecimal digits after \<^verbatim>\<open>0x\<close> parses likewise in base 16; and where no
  digit follows the sign the parse is \<^verbatim>\<open>NaN\<close>. Above \<open>2 ^ 53\<close> the number value is
  the integer rounded to 53 significant bits, to nearest and on a tie to the even
  significand, or an infinity when that reaches \<open>2 ^ 1024\<close>.
\<close>

theorem job_payload_normalised:
  "filter (\<lambda>r. http_method r = ''POST'') (sent_requests (snd (JobModal_handleSubmit API c jd p g st)))
     = [axios_post c (API @ ''/jobs'') (JobBody (formatJobData jd)) Map.empty]
   \<and> f_salary_min (formatJobData jd) =
       (if salary_min jd = [] then None else Some (parseInt (salary_min jd)))
   \<and> f_salary_max (formatJobData jd) =
       (if salary_max jd = [] then None else Some (parseInt (salary_max jd)))
   \<and> (list_all isWhiteSpace ws \<and> (sg = [] \<or> sg = ''+'' \<or> sg = ''-'')
        \<and> ds \<noteq> [] \<and> list_all decimal_digit ds
        \<and> (rest = [] \<or> \<not> decimal_digit (hd rest))
        \<and> \<not> (ds = ''0'' \<and> rest \<noteq> [] \<and> (hd rest = CHR ''x'' \<or> hd rest = CHR ''X''))
      \<longrightarrow>
        parseInt (ws @ sg @ ds @ rest) =
          (if decimal_value ds = 0 then (if sg = ''-'' then NegZero else Num 0)
           else to_number ((if sg = ''-'' then - 1 else 1) * int (decimal_value ds)))
        \<and> (decimal_value ds \<le> 2 ^ 53 \<longrightarrow>
             parseInt (ws @ sg @ ds @ rest) =
               (if sg = ''-''
                then (if decimal_value ds = 0 then NegZero else Num (- int (decimal_value ds)))
                else Num (int (decimal_value ds)))))
   \<and> (list_all isWhiteSpace ws \<and> (sg = [] \<or> sg = ''+'' \<or> sg = ''-'')
        \<and> (pre = ''0x'' \<or> pre = ''0X'') \<and> list_all hex_digit hs
        \<and> (hrest = [] \<or> \<not> hex_digit (hd hrest))
      \<longrightarrow>
        parseInt (ws @ sg @ pre @ hs @ hrest) =
          (if hs = [] then NaN
           else if hex_value hs = 0 then (if sg = ''-'' then NegZero else Num 0)
           else to_number ((if sg = ''-'' then - 1 else 1) * int (hex_value hs))))
   \<and> (list_all isWhiteSpace ws \<and> (sg = [] \<or> sg = ''+'' \<or> sg = ''-'')
        \<and> (t = [] \<or> (\<not> isWhiteSpace (hd t) \<and> hd t \<noteq> CHR ''-'' \<and> hd t \<noteq> CHR ''+''
                        \<and> \<not> decimal_digit (hd t)))
      \<longrightarrow> parseInt (ws @ sg @ t) = NaN)
   \<and> (\<bar>n\<bar> \<le> 2 ^ 53 \<longrightarrow> to_number n = Num n)
   \<and> (2 ^ 53 < \<bar>n\<bar> \<longrightarrow>
        to_number n =
          (if 2 ^ 1024 \<le> round_to_53_bits (nat \<bar>n\<bar>)
           then (if n < 0 then NegInfinity else Infinity)
           else Num (if n < 0 then - int (round_to_53_bits (nat \<bar>n\<bar>))
                     else int (round_to_53_bits (nat \<bar>n\<bar>)))))
   \<and> (2 ^ 53 < a \<longrightarrow>
        (\<exists>e q. round_to_53_bits a = q * 2 ^ e \<and> 2 ^ 52 \<le> q \<and> q \<le> 2 ^ 53
           \<and> 2 * \<bar>int (round_to_53_bits a) - int a\<bar> \<le> 2 ^ e
           \<and> (2 * \<bar>int (round_to_53_bits a) - int a\<bar> = 2 ^ e \<longrightarrow> even q)))
   \<and> f_requirements (formatJobData jd) =
       filter (\<lambda>req. \<not> list_all isWhiteSpace req) (requirements jd)
   \<and> f_title (formatJobData jd) = title jd
   \<and> f_company (formatJobData jd) = company jd
   \<and> f_location (formatJobData jd) = location jd
   \<and> f_description (formatJobData jd) = description jd
   \<and> f_job_type (formatJobData jd) = job_type jd"
proof -
  have dec: "list_all isWhiteSpace ws \<and> (sg = [] \<or> sg = ''+'' \<or> sg = ''-'')
        \<and> ds \<noteq> [] \<and> list_all decimal_digit ds
        \<and> (rest = [] \<or> \<not> decimal_digit (hd rest))
        \<and> \<not> (ds = ''0'' \<and> rest \<noteq> [] \<and> (hd rest = CHR ''x'' \<or> hd rest = CHR ''X''))
      \<longrightarrow>
        parseInt (ws @ sg @ ds @ rest) =
          (if decimal_value ds = 0 then (if sg = ''-'' then NegZero else Num 0)
           else to_number ((if sg = ''-'' then - 1 else 1) * int (decimal_value ds)))
        \<and> (decimal_value ds \<le> 2 ^ 53 \<longrightarrow>
             parseInt (ws @ sg @ ds @ rest) =
               (if sg = ''-''
                then (if decimal_value ds = 0 then NegZero else Num (- int (decimal_value ds)))
                else Num (int (decimal_value ds))))"
    using parseInt_decimal [of ws sg ds rest] parseInt_safe [of ws sg ds rest] by blast
  have hex: "list_all isWhiteSpace ws \<and> (sg = [] \<or> sg = ''+'' \<or> sg = ''-'')
        \<and> (pre = ''0x'' \<or> pre = ''0X'') \<and> list_all hex_digit hs
        \<and> (hrest = [] \<or> \<not> hex_digit (hd hrest))
      \<longrightarrow>
        parseInt (ws @ sg @ pre @ hs @ hrest) =
          (if hs = [] then NaN
           else if hex_value hs = 0 then (if sg = ''-'' then NegZero else Num 0)
           else to_number ((if sg = ''-'' then - 1 else 1) * int (hex_value hs)))"
    using parseInt_hex [of ws sg pre hs hrest] by blast
  have nan: "list_all isWhiteSpace ws \<and> (sg = [] \<or> sg = ''+'' \<or> sg = ''-'')
        \<and> (t = [] \<or> (\<not> isWhiteSpace (hd t) \<and> hd t \<noteq> CHR ''-'' \<and> hd t \<noteq> CHR ''+''
                        \<and> \<not> decimal_digit (hd t)))
      \<longrightarrow> parseInt (ws @ sg @ t) = NaN"
    using parseInt_no_digits [of ws sg t] by blast
  have num: "\<bar>n\<bar> \<le> 2 ^ 53 \<longrightarrow> to_number n = Num n"
    "2 ^ 53 < \<bar>n\<bar> \<longrightarrow>
        to_number n =
          (if 2 ^ 1024 \<le> round_to_53_bits (nat \<bar>n\<bar>)
           then (if n < 0 then NegInfinity else Infinity)
           else Num (if n < 0 then - int (round_to_53_bits (nat \<bar>n\<bar>))
                     else int (round_to_53_bits (nat \<bar>n\<bar>))))"
    using to_number_exact [of n] to_number_rounded [of n] by blast+
  have rnd: "2 ^ 53 < a \<longrightarrow>
        (\<exists>e q. round_to_53_bits a = q * 2 ^ e \<and> 2 ^ 52 \<le> q \<and> q \<le> 2 ^ 53
           \<and> 2 * \<bar>int (round_to_53_bits a) - int a\<bar> \<le> 2 ^ e
           \<and> (2 * \<bar>int (round_to_53_bits a) - int a\<bar> = 2 ^ e \<longrightarrow> even q))"
    using round_to_53_bits_nearest [of a "round_to_53_bits a"] by blast
  from JobModal_posts [of API c jd p g st] formatted_fields [of jd] dec hex nan num rnd
  show ?thesis by (intro conjI)
qed

theorem job_payload_normalised_witness:
  "f_salary_min (formatJobData sample_jobData) = Some (Num 50000)
   \<and> f_salary_max (formatJobData sample_jobData) = None
   \<and> f_requirements (formatJobData sample_jobData) = [''SQL'', '' Git '']
   \<and> f_title (formatJobData sample_jobData) = ''Engineer''
   \<and> parseInt ''  -12.5'' = Num (- 12)
   \<and> parseInt ''0x1F'' = Num 31
   \<and> parseInt ''.5'' = NaN
   \<and> parseInt ''9007199254740993'' = Num 9007199254740992"
proof -
  note fields = job_payload_normalised [where jd = sample_jobData and ws = "[]" and sg = "[]"
      and ds = "''50000''" and rest = "[]" and pre = "''0x''" and hs = "''1F''" and hrest = "[]"
      and t = "''.5''" and n = 31 and a = 9007199254740993 and API = "''/api''"
      and c = Map.empty and p = "Inr ()" and g = "Inr []" and st = Employer_initial]
  note neg = job_payload_normalised [where jd = sample_jobData and ws = "''  ''" and sg = "''-''"
      and ds = "''12''" and rest = "''.5''" and pre = "''0x''" and hs = "''1F''" and hrest = "[]"
      and t = "''.5''" and n = 9007199254740993 and a = 9007199254740993 and API = "''/api''"
      and c = Map.empty and p = "Inr ()" and g = "Inr []" and st = Employer_initial]
  note big = job_payload_normalised [where jd = sample_jobData and ws = "[]" and sg = "[]"
      and ds = "''9007199254740993''" and rest = "[]" and pre = "''0x''" and hs = "''1F''"
      and hrest = "[]" and t = "''.5''" and n = 9007199254740993 and a = 9007199254740993
      and API = "''/api''" and c = Map.empty and p = "Inr ()" and g = "Inr []"
      and st = Employer_initial]
  have v1: "decimal_value ''50000'' = 50000" "decimal_value ''12'' = 12"
    "decimal_value ''9007199254740993'' = 9007199254740993"
    by (simp_all add: decimal_value_def)
  have v2: "hex_value ''1F'' = 31"
    by (simp add: hex_value_def hex_digit_value_def decimal_digit_def)
  have r: "round_to_53_bits 9007199254740993 = 9007199254740992"
    by (simp add: round_to_53_bits_def bit_length.simps Let_def)
  from fields have p1: "parseInt ''50000'' = Num 50000"
    by (simp add: v1 decimal_digit_def to_number_def round_to_double_def)
  from neg have p2: "parseInt ''  -12.5'' = Num (- 12)"
    by (simp add: v1 decimal_digit_def isWhiteSpace_def to_number_def round_to_double_def)
  from fields have p3: "parseInt ''0x1F'' = Num 31"
    by (simp add: v2 hex_digit_def decimal_digit_def to_number_def round_to_double_def)
  from fields have p4: "parseInt ''.5'' = NaN"
    by (simp add: decimal_digit_def isWhiteSpace_def)
  from big have p5: "parseInt ''9007199254740993'' = Num 9007199254740992"
    by (simp add: v1 r decimal_digit_def to_number_def round_to_double_def)
  from fields p1 have f: "f_salary_min (formatJobData sample_jobData) = Some (Num 50000)"
    "f_salary_max (formatJobData sample_jobData) = None"
    "f_requirements (formatJobData sample_jobData) = [''SQL'', '' Git '']"
    "f_title (formatJobData sample_jobData) = ''Engineer''"
    by (simp_all add: sample_jobData_def isWhiteSpace_def)
  from f p2 p3 p4 p5 show ?thesis by (intro conjI)
qed

end
